theory Spec2Isabelle
  imports Main
begin

section \<open>The supervisor's constants\<close>

text \<open>
  \<^verbatim>\<open>class JobStatus(int, Enum)\<close>. Two members carry the value 80; in a Python
  \<^verbatim>\<open>Enum\<close> the second one (\<^verbatim>\<open>compute_mbtiles_10_running\<close>) is an alias of the
  first (\<^verbatim>\<open>compute_mbtiles_0_9_complete\<close>): one object with two names. The
  datatype therefore has one constructor for the value 80 and the alias is an
  abbreviation.
\<close>

datatype JobStatus =
    JobStatus_new
  | JobStatus_staging_running
  | JobStatus_staging_complete
  | JobStatus_obs_mod_running
  | JobStatus_obs_mod_complete
  | JobStatus_run_geo_tiff_running
  | JobStatus_run_geo_tiff_complete
  | JobStatus_compute_mbtiles_0_9_running
  | JobStatus_compute_mbtiles_0_9_complete
  | JobStatus_compute_mbtiles_10_complete
  | JobStatus_compute_mbtiles_11_running
  | JobStatus_compute_mbtiles_11_complete
  | JobStatus_compute_mbtiles_12_running
  | JobStatus_compute_mbtiles_12_complete
  | JobStatus_load_geo_server_running
  | JobStatus_load_geo_server_complete
  | JobStatus_final_staging_running
  | JobStatus_final_staging_complete
  | JobStatus_warning
  | JobStatus_error

abbreviation JobStatus_compute_mbtiles_10_running :: JobStatus where
  "JobStatus_compute_mbtiles_10_running \<equiv> JobStatus_compute_mbtiles_0_9_complete"

fun JobStatus_value :: "JobStatus \<Rightarrow> int" where
  "JobStatus_value JobStatus_new = 1"
| "JobStatus_value JobStatus_staging_running = 10"
| "JobStatus_value JobStatus_staging_complete = 20"
| "JobStatus_value JobStatus_obs_mod_running = 30"
| "JobStatus_value JobStatus_obs_mod_complete = 40"
| "JobStatus_value JobStatus_run_geo_tiff_running = 50"
| "JobStatus_value JobStatus_run_geo_tiff_complete = 60"
| "JobStatus_value JobStatus_compute_mbtiles_0_9_running = 70"
| "JobStatus_value JobStatus_compute_mbtiles_0_9_complete = 80"
| "JobStatus_value JobStatus_compute_mbtiles_10_complete = 90"
| "JobStatus_value JobStatus_compute_mbtiles_11_running = 100"
| "JobStatus_value JobStatus_compute_mbtiles_11_complete = 110"
| "JobStatus_value JobStatus_compute_mbtiles_12_running = 120"
| "JobStatus_value JobStatus_compute_mbtiles_12_complete = 130"
| "JobStatus_value JobStatus_load_geo_server_running = 140"
| "JobStatus_value JobStatus_load_geo_server_complete = 150"
| "JobStatus_value JobStatus_final_staging_running = 160"
| "JobStatus_value JobStatus_final_staging_complete = 170"
| "JobStatus_value JobStatus_warning = 9999"
| "JobStatus_value JobStatus_error = - 1"

text \<open>\<^verbatim>\<open>class JobType(str, Enum)\<close>, in the order of the source.\<close>

datatype JobType =
    JobType_staging
  | JobType_obs_mod
  | JobType_run_geo_tiff
  | JobType_compute_mbtiles_0_9
  | JobType_compute_mbtiles_10
  | JobType_compute_mbtiles_11
  | JobType_compute_mbtiles_12
  | JobType_load_geo_server
  | JobType_final_staging
  | JobType_error
  | JobType_other_1
  | JobType_complete

text \<open>
  The job types are finitely many, so two maps from job types (the stage-local entries
  of two runs) can be compared by running through this list, as the comparison of two
  dictionaries does.
\<close>

instantiation JobType :: enum
begin

definition enum_JobType :: "JobType list" where
  "enum_JobType =
     [JobType_staging, JobType_obs_mod, JobType_run_geo_tiff, JobType_compute_mbtiles_0_9,
      JobType_compute_mbtiles_10, JobType_compute_mbtiles_11, JobType_compute_mbtiles_12,
      JobType_load_geo_server, JobType_final_staging, JobType_error, JobType_other_1,
      JobType_complete]"

definition enum_all_JobType :: "(JobType \<Rightarrow> bool) \<Rightarrow> bool" where
  "enum_all_JobType P = list_all P (enum_class.enum :: JobType list)"

definition enum_ex_JobType :: "(JobType \<Rightarrow> bool) \<Rightarrow> bool" where
  "enum_ex_JobType P = list_ex P (enum_class.enum :: JobType list)"

instance
proof
  have all: "x \<in> set (enum_class.enum :: JobType list)" for x :: JobType
    by (cases x) (simp_all add: enum_JobType_def)
  then show u: "(UNIV :: JobType set) = set enum_class.enum"
    by auto
  show "distinct (enum_class.enum :: JobType list)"
    by (simp add: enum_JobType_def)
  show "enum_class.enum_all P = Ball UNIV P" for P :: "JobType \<Rightarrow> bool"
    unfolding u by (simp add: enum_all_JobType_def list_all_iff)
  show "enum_class.enum_ex P = Bex UNIV P" for P :: "JobType \<Rightarrow> bool"
    unfolding u by (simp add: enum_ex_JobType_def list_ex_iff)
qed

end

text \<open>
  The string a member stands for. An f-string over a member prints this value (the
  format of a \<^verbatim>\<open>str\<close> mix-in enumeration in Python up to 3.10; later
  interpreters print the member's qualified name instead).
\<close>

fun JobType_value :: "JobType \<Rightarrow> string" where
  "JobType_value JobType_staging = ''staging''"
| "JobType_value JobType_obs_mod = ''obs-mod''"
| "JobType_value JobType_run_geo_tiff = ''run-geo-tiff''"
| "JobType_value JobType_compute_mbtiles_0_9 = ''compute-mbtiles-0-9''"
| "JobType_value JobType_compute_mbtiles_10 = ''compute-mbtiles-10''"
| "JobType_value JobType_compute_mbtiles_11 = ''compute-mbtiles-11''"
| "JobType_value JobType_compute_mbtiles_12 = ''compute-mbtiles-12''"
| "JobType_value JobType_load_geo_server = ''load-geo-server''"
| "JobType_value JobType_final_staging = ''final-staging''"
| "JobType_value JobType_error = ''error''"
| "JobType_value JobType_other_1 = ''TBD''"
| "JobType_value JobType_complete = ''complete''"

section \<open>Data\<close>

text \<open>
  A stage's job template, as the configuration file holds it: the fields
  \<^verbatim>\<open>k8s_create_job_obj\<close> and the parameter builders of \<^verbatim>\<open>handle_run\<close> read.
\<close>

record job_template =
  JOB_NAME :: string
  DATA_VOLUME_NAME :: string
  SSH_VOLUME_NAME :: string
  COMMAND_LINE :: "string list"
  DATA_MOUNT_PATH :: string
  SUB_PATH :: string
  ADDITIONAL_PATH :: string

text \<open>
  \<^verbatim>\<open>self.k8s_config\<close>: the per-stage templates (a missing stage is a
  \<^verbatim>\<open>KeyError\<close>) and the two poll intervals.
\<close>

record config =
  stage_templates :: "JobType \<rightharpoonup> job_template"
  POLL_SHORT_SLEEP :: int
  POLL_LONG_SLEEP :: int

text \<open>
  \<^verbatim>\<open>run[run['job-type']]\<close>: the stage-local entry of a run. \<^verbatim>\<open>k8s_create_job_obj\<close>
  stores the bound template under \<^verbatim>\<open>'run-config'\<close>; the job creator stores the job
  under \<^verbatim>\<open>'job-config'\<close>, of which the supervisor reads \<^verbatim>\<open>'job_id'\<close> only.
\<close>

record job_obj =
  run_config :: job_template
  job_config :: "string option"

text \<open>
  An entry of \<^verbatim>\<open>run_list\<close>: the dictionary built by \<^verbatim>\<open>get_incomplete_runs\<close>, with
  the stage-local entries as a map from the job type. The run id is kept as the
  text \<^verbatim>\<open>str(run['id'])\<close> gives.
\<close>

record run_dict =
  run_id :: string
  job_type :: JobType
  status :: JobStatus
  status_prov :: string
  downloadurl :: string
  gridname :: string
  instance_name :: string
  job_objs :: "JobType \<rightharpoonup> job_obj"

text \<open>A row of \<^verbatim>\<open>get_new_runs()\<close>: \<^verbatim>\<open>{'run_id': ..., 'run_data': {...}}\<close>.\<close>

record new_run =
  new_run_id :: string
  run_data :: "string \<rightharpoonup> string"

text \<open>What \<^verbatim>\<open>get_new_runs()\<close> returns: \<^verbatim>\<open>-1\<close>, \<^verbatim>\<open>None\<close> or the rows.\<close>

datatype new_runs = Runs_minus_one | Runs_None | Runs "new_run list"

section \<open>The collaborators\<close>

text \<open>
  The data base access object, the job creator and finder, the configuration file
  and the Slack client are outside the supervisor, so they are parameters of the
  model. Every call to one of them is recorded, in order, in a trace of events; the
  answer to the call made when the trace holds \<open>n\<close> events is what the environment
  gives at \<open>n\<close>. An answer \<open>None\<close> (or \<open>False\<close> for a call with no result) is a raised
  exception. So an environment is any behaviour of the collaborators, and a theorem
  for all environments covers all of them.
\<close>

record env =
  pg_get_new_runs :: "nat \<Rightarrow> new_runs option"
  pg_update_job_status :: "nat \<Rightarrow> bool"
  slack_chat_postMessage :: "nat \<Rightarrow> bool"
  file_get_config :: "nat \<Rightarrow> (JobType \<rightharpoonup> job_template) option"
  k8s_execute :: "nat \<Rightarrow> string option"
  k8s_find_job_info :: "nat \<Rightarrow> (int option \<times> string) option"
  k8s_delete_job :: "nat \<Rightarrow> string option"

datatype event =
    Ev_get_new_runs
  | Ev_update_job_status string string
  | Ev_chat_postMessage string
  | Ev_get_config
  | Ev_execute string JobType "job_obj option"
  | Ev_find_job_info string JobType
  | Ev_delete_job string JobType
  | Ev_sleep int

text \<open>A call returns a value or raises; the state it has changed so far stays changed.\<close>

datatype 'a outcome = Returned 'a | Raised

definition get_new_runs :: "env \<Rightarrow> event list \<Rightarrow> new_runs outcome \<times> event list" where
  "get_new_runs e tr =
     (case pg_get_new_runs e (length tr) of
        None \<Rightarrow> (Raised, tr @ [Ev_get_new_runs])
      | Some runs \<Rightarrow> (Returned runs, tr @ [Ev_get_new_runs]))"

definition update_job_status ::
  "env \<Rightarrow> string \<Rightarrow> string \<Rightarrow> event list \<Rightarrow> unit outcome \<times> event list" where
  "update_job_status e rid prov tr =
     (if pg_update_job_status e (length tr)
      then (Returned (), tr @ [Ev_update_job_status rid prov])
      else (Raised, tr @ [Ev_update_job_status rid prov]))"

definition chat_postMessage :: "env \<Rightarrow> string \<Rightarrow> event list \<Rightarrow> unit outcome \<times> event list" where
  "chat_postMessage e text tr =
     (if slack_chat_postMessage e (length tr)
      then (Returned (), tr @ [Ev_chat_postMessage text])
      else (Raised, tr @ [Ev_chat_postMessage text]))"

definition get_config ::
  "env \<Rightarrow> event list \<Rightarrow> (JobType \<rightharpoonup> job_template) outcome \<times> event list" where
  "get_config e tr =
     (case file_get_config e (length tr) of
        None \<Rightarrow> (Raised, tr @ [Ev_get_config])
      | Some c \<Rightarrow> (Returned c, tr @ [Ev_get_config]))"

text \<open>
  Modelled from the spec: \<^verbatim>\<open>JobCreate.execute\<close> is not among the sources. The spec
  gives \<^verbatim>\<open>create(job_spec) -> job_handle\<close>, "the returned handle is persisted on the
  run": a call that returns has stored the job (its \<^verbatim>\<open>job_id\<close>) in the run's
  stage-local entry, which \<^verbatim>\<open>k8s_create_job_obj\<close> has made just before.
\<close>

definition execute :: "env \<Rightarrow> run_dict \<Rightarrow> event list \<Rightarrow> unit outcome \<times> run_dict \<times> event list" where
  "execute e r tr =
     (let tr1 = tr @ [Ev_execute (run_id r) (job_type r) (job_objs r (job_type r))] in
      case job_objs r (job_type r) of
        None \<Rightarrow> (Raised, r, tr1)
      | Some ob \<Rightarrow>
          (case k8s_execute e (length tr) of
             None \<Rightarrow> (Raised, r, tr1)
           | Some jid \<Rightarrow>
               (Returned (),
                r\<lparr>job_objs := (job_objs r)(job_type r \<mapsto> ob\<lparr>job_config := Some jid\<rparr>)\<rparr>,
                tr1)))"

text \<open>
  Modelled from the spec: \<^verbatim>\<open>JobFind.find_job_info\<close> and \<^verbatim>\<open>JobCreate.delete_job\<close>
  are not among the sources. \<^verbatim>\<open>inspect\<close> gives the job status (\<^verbatim>\<open>None\<close> when the
  job is no longer active) and the pod condition; \<^verbatim>\<open>delete\<close> gives a final status.
  Neither changes the run.
\<close>

definition find_job_info ::
  "env \<Rightarrow> run_dict \<Rightarrow> event list \<Rightarrow> (int option \<times> string) outcome \<times> event list" where
  "find_job_info e r tr =
     (case k8s_find_job_info e (length tr) of
        None \<Rightarrow> (Raised, tr @ [Ev_find_job_info (run_id r) (job_type r)])
      | Some res \<Rightarrow> (Returned res, tr @ [Ev_find_job_info (run_id r) (job_type r)]))"

definition delete_job :: "env \<Rightarrow> run_dict \<Rightarrow> event list \<Rightarrow> string outcome \<times> event list" where
  "delete_job e r tr =
     (case k8s_delete_job e (length tr) of
        None \<Rightarrow> (Raised, tr @ [Ev_delete_job (run_id r) (job_type r)])
      | Some final \<Rightarrow> (Returned final, tr @ [Ev_delete_job (run_id r) (job_type r)]))"

section \<open>Strings\<close>

text \<open>\<^verbatim>\<open>s.startswith(p)\<close>.\<close>

definition startswith :: "string \<Rightarrow> string \<Rightarrow> bool" where
  "startswith s p = (take (length p) s = p)"

text \<open>\<^verbatim>\<open>s.find(sub)\<close>: the lowest index where \<open>sub\<close> starts in \<open>s\<close>, or \<open>-1\<close>.\<close>

fun str_find_at :: "string \<Rightarrow> string \<Rightarrow> int \<Rightarrow> int" where
  "str_find_at [] sub i = (if sub = [] then i else - 1)"
| "str_find_at (c # cs) sub i =
     (if startswith (c # cs) sub then i else str_find_at cs sub (i + 1))"

definition str_find :: "string \<Rightarrow> string \<Rightarrow> int" where
  "str_find s sub = str_find_at s sub 0"

text \<open>\<^verbatim>\<open>s.lower()\<close>, on ASCII letters.\<close>

definition lower_char :: "char \<Rightarrow> char" where
  "lower_char c =
     (if 65 \<le> (of_char c :: nat) \<and> (of_char c :: nat) \<le> 90
      then char_of ((of_char c :: nat) + 32) else c)"

definition lower :: "string \<Rightarrow> string" where
  "lower s = map lower_char s"

text \<open>
  \<^verbatim>\<open>s.replace(old, new)\<close>: every occurrence of \<open>old\<close>, found from the left without
  overlap, is replaced; an empty \<open>old\<close> matches before every character and at the end.
\<close>

function replace :: "string \<Rightarrow> string \<Rightarrow> string \<Rightarrow> string" where
  "replace old new s =
     (if old = [] then new @ concat (map (\<lambda>c. c # new) s)
      else if s = [] then []
      else if startswith s old then new @ replace old new (drop (length old) s)
      else hd s # replace old new (tl s))"
  by pat_completeness auto
termination
  by (relation "measure (\<lambda>(old, new, s). length s)") auto

declare replace.simps [simp del]

section \<open>The notification sender\<close>

text \<open>
  \<^verbatim>\<open>send_slack_msg(run_id, msg, instance_name=None)\<close>: builds the line and posts
  it. Nothing is caught here: an exception of the client is raised to the caller.
\<close>

definition send_slack_msg ::
  "env \<Rightarrow> string \<Rightarrow> string \<Rightarrow> string option \<Rightarrow> event list \<Rightarrow> unit outcome \<times> event list" where
  "send_slack_msg e rid msg inst tr =
     (let final_msg0 = ''APSViz Supervisor - '';
          final_msg1 = (case inst of
                          Some n \<Rightarrow> final_msg0 @ ''Instance name: '' @ n @ '', ''
                        | None \<Rightarrow> final_msg0);
          final_msg = final_msg1 @ ''Run ID: '' @ rid @ '' '' @ msg
      in chat_postMessage e final_msg tr)"

section \<open>The job template binder\<close>

text \<open>
  \<^verbatim>\<open>k8s_create_job_obj(run, command_line_params, extend_output_path)\<close>. It reads the
  configuration file again, so the template it binds is the environment's.
\<close>

definition k8s_create_job_obj ::
  "env \<Rightarrow> run_dict \<Rightarrow> string list \<Rightarrow> bool \<Rightarrow> event list \<Rightarrow> unit outcome \<times> run_dict \<times> event list" where
  "k8s_create_job_obj e r command_line_params extend_output_path tr =
     (if status r = JobStatus_new then
        (case get_config e tr of
           (Raised, tr1) \<Rightarrow> (Raised, r, tr1)
         | (Returned c, tr1) \<Rightarrow>
             (case c (job_type r) of
                None \<Rightarrow> (Raised, r, tr1)
              | Some config0 \<Rightarrow>
                  (let config1 = config0\<lparr>JOB_NAME := JOB_NAME config0 @ lower (run_id r)\<rparr>;
                       config2 = config1\<lparr>DATA_VOLUME_NAME := DATA_VOLUME_NAME config1 @ lower (run_id r)\<rparr>;
                       config3 = config2\<lparr>SSH_VOLUME_NAME := SSH_VOLUME_NAME config2 @ lower (run_id r)\<rparr>;
                       config4 = config3\<lparr>COMMAND_LINE := COMMAND_LINE config3 @ command_line_params\<rparr>;
                       config5 =
                         (if extend_output_path then
                            (let config4a = config4\<lparr>SUB_PATH := ''/'' @ run_id r @ SUB_PATH config4\<rparr>
                             in config4a\<lparr>COMMAND_LINE := COMMAND_LINE config4a @
                                  [DATA_MOUNT_PATH config4a @ SUB_PATH config4a @ ADDITIONAL_PATH config4a]\<rparr>)
                          else config4)
                   in (Returned (),
                       r\<lparr>job_objs := (job_objs r)(job_type r \<mapsto> \<lparr>run_config = config5, job_config = None\<rparr>)\<rparr>,
                       tr1))))
      else (Returned (), r, tr))"

section \<open>The stage handler\<close>

text \<open>
  \<^verbatim>\<open>run[run['job-type']]['job-config']['job_id']\<close>, which the log lines of
  \<^verbatim>\<open>handle_run\<close> print: a \<^verbatim>\<open>KeyError\<close> when the run has no job bound for its stage.
  Logging itself is taken to return; it is not recorded in the trace.
\<close>

definition job_id :: "run_dict \<Rightarrow> string option" where
  "job_id r = (case job_objs r (job_type r) of None \<Rightarrow> None | Some ob \<Rightarrow> job_config ob)"

text \<open>
  The command line parameters of the stages. Those that read
  \<^verbatim>\<open>self.k8s_config[run['job-type']]\<close> raise a \<^verbatim>\<open>KeyError\<close> (\<open>None\<close>) when the
  configuration has no template for the stage.
\<close>

definition staging_params :: "run_dict \<Rightarrow> string list option" where
  "staging_params r = Some [''--inputURL'', downloadurl r, ''--outputDir'']"

definition obs_mod_params :: "config \<Rightarrow> run_dict \<Rightarrow> string list option" where
  "obs_mod_params cfg r =
     (let access_type0 = downloadurl r @ ''/fort.63.nc'';
          access_type = replace ''fileServer'' ''dodsC'' access_type0
      in case stage_templates cfg (job_type r) of
           None \<Rightarrow> None
         | Some t \<Rightarrow>
             Some [''--instanceId'', run_id r,
                   ''--inputURL'', access_type, ''--grid'', gridname r,
                   ''--outputDIR'',
                   DATA_MOUNT_PATH t @ ''/'' @ run_id r @ SUB_PATH t @ ADDITIONAL_PATH t,
                   ''--finalDIR'',
                   DATA_MOUNT_PATH t @ ''/'' @ run_id r @ ''/'' @ ''final'' @ ADDITIONAL_PATH t])"

text \<open>The geo tiff stage and the three mbtiles stages build the same list.\<close>

definition tiles_params :: "config \<Rightarrow> run_dict \<Rightarrow> string list option" where
  "tiles_params cfg r =
     (case stage_templates cfg (job_type r) of
        None \<Rightarrow> None
      | Some t \<Rightarrow>
          Some [''--outputDIR'',
                DATA_MOUNT_PATH t @ ''/'' @ run_id r @ SUB_PATH t,
                ''--finalDIR'',
                DATA_MOUNT_PATH t @ ''/'' @ run_id r @ ''/'' @ ''final'' @ SUB_PATH t,
                ''--inputFile''])"

definition load_geo_server_params :: "run_dict \<Rightarrow> string list option" where
  "load_geo_server_params r = Some [''--instanceId'', run_id r]"

definition final_staging_params :: "config \<Rightarrow> run_dict \<Rightarrow> string list option" where
  "final_staging_params cfg r =
     (case stage_templates cfg (job_type r) of
        None \<Rightarrow> None
      | Some t \<Rightarrow>
          Some [''--inputDir'',
                DATA_MOUNT_PATH t @ ''/'' @ run_id r @ SUB_PATH t,
                ''--outputDir'',
                DATA_MOUNT_PATH t @ SUB_PATH t,
                ''--tarMeta'',
                run_id r])"

text \<open>
  The source repeats one block per stage; the blocks differ in their constants only.
  \<open>stage_new\<close> is the block under \<^verbatim>\<open>run['status'] == JobStatus.new\<close>: build the
  parameters, bind the template, execute the job, set the running status, append the
  running fragment, write the status, log the job id. Its arguments are the constants
  of the block.
\<close>

definition stage_new ::
  "env \<Rightarrow> run_dict \<Rightarrow> string list option \<Rightarrow> bool \<Rightarrow> JobStatus \<Rightarrow> string \<Rightarrow> event list
     \<Rightarrow> bool outcome \<times> run_dict \<times> event list" where
  "stage_new e r params extend_output_path running running_fragment tr =
     (case params of
        None \<Rightarrow> (Raised, r, tr)
      | Some command_line_params \<Rightarrow>
          (case k8s_create_job_obj e r command_line_params extend_output_path tr of
             (Raised, r1, tr1) \<Rightarrow> (Raised, r1, tr1)
           | (Returned u, r1, tr1) \<Rightarrow>
               (case execute e r1 tr1 of
                  (Raised, r2, tr2) \<Rightarrow> (Raised, r2, tr2)
                | (Returned v, r2, tr2) \<Rightarrow>
                    (let r3 = r2\<lparr>status := running\<rparr>;
                         r4 = r3\<lparr>status_prov := status_prov r3 @ running_fragment\<rparr>
                     in case update_job_status e (run_id r4) (status_prov r4) tr2 of
                          (Raised, tr3) \<Rightarrow> (Raised, r4, tr3)
                        | (Returned w, tr3) \<Rightarrow>
                            (case job_id r4 of
                               None \<Rightarrow> (Raised, r4, tr3)
                             | Some jid \<Rightarrow> (Returned False, r4, tr3))))))"

text \<open>
  \<open>stage_running\<close> is the block under \<^verbatim>\<open>run['status'] == <stage>_running\<close>: find the
  job; when it is no longer active and its pod has not failed, delete it, log, set the
  next job type and status, append the complete fragment and write the status; when
  the pod has failed, delete it, log, send the message and set the failure job type
  and status (with no write); otherwise nothing. The value returned is the
  \<^verbatim>\<open>no_activity\<close> flag, which every block sets to \<^verbatim>\<open>False\<close>.
\<close>

definition stage_running ::
  "env \<Rightarrow> run_dict \<Rightarrow> JobType \<Rightarrow> JobStatus \<Rightarrow> string \<Rightarrow> string \<Rightarrow> JobType \<Rightarrow> JobStatus \<Rightarrow> event list
     \<Rightarrow> bool outcome \<times> run_dict \<times> event list" where
  "stage_running e r next_type next_status complete_fragment failed_msg failed_type failed_status tr =
     (case find_job_info e r tr of
        (Raised, tr1) \<Rightarrow> (Raised, r, tr1)
      | (Returned (job_status, job_pod_status), tr1) \<Rightarrow>
          (if job_status = None \<and> \<not> startswith job_pod_status ''Failed'' then
             (case delete_job e r tr1 of
                (Raised, tr2) \<Rightarrow> (Raised, r, tr2)
              | (Returned final, tr2) \<Rightarrow>
                  (case job_id r of
                     None \<Rightarrow> (Raised, r, tr2)
                   | Some jid \<Rightarrow>
                       (let r1 = r\<lparr>job_type := next_type\<rparr>;
                            r2 = r1\<lparr>status := next_status\<rparr>;
                            r3 = r2\<lparr>status_prov := status_prov r2 @ complete_fragment\<rparr>
                        in case update_job_status e (run_id r3) (status_prov r3) tr2 of
                             (Raised, tr3) \<Rightarrow> (Raised, r3, tr3)
                           | (Returned w, tr3) \<Rightarrow> (Returned False, r3, tr3))))
           else if startswith job_pod_status ''Failed'' then
             (case delete_job e r tr1 of
                (Raised, tr2) \<Rightarrow> (Raised, r, tr2)
              | (Returned final, tr2) \<Rightarrow>
                  (case job_id r of
                     None \<Rightarrow> (Raised, r, tr2)
                   | Some jid \<Rightarrow>
                       (case send_slack_msg e (run_id r) failed_msg (Some (instance_name r)) tr2 of
                          (Raised, tr3) \<Rightarrow> (Raised, r, tr3)
                        | (Returned w, tr3) \<Rightarrow>
                            (Returned False, r\<lparr>job_type := failed_type, status := failed_status\<rparr>, tr3))))
           else (Returned False, r, tr1)))"

text \<open>
  \<^verbatim>\<open>handle_run(run)\<close>: the cascade over the job type, one block per stage with its
  constants. There is no block for \<^verbatim>\<open>JobType.compute_mbtiles_12\<close>. The flag
  \<^verbatim>\<open>no_activity\<close> starts as \<^verbatim>\<open>False\<close>, so a run that no block takes returns
  \<^verbatim>\<open>False\<close> too.
\<close>

definition handle_run ::
  "config \<Rightarrow> env \<Rightarrow> run_dict \<Rightarrow> event list \<Rightarrow> bool outcome \<times> run_dict \<times> event list" where
  "handle_run cfg e r tr =
     (if job_type r = JobType_staging then
        (if status r = JobStatus_new then
           stage_new e r (staging_params r) True
             JobStatus_staging_running '', Staging running'' tr
         else if status r = JobStatus_staging_running \<and> status r \<noteq> JobStatus_error then
           stage_running e r JobType_obs_mod JobStatus_new '', Staging complete''
             (''failed in '' @ JobType_value (job_type r) @ ''.'')
             JobType_error JobStatus_error tr
         else (Returned False, r, tr))
      else if job_type r = JobType_obs_mod then
        (if status r = JobStatus_new then
           stage_new e r (obs_mod_params cfg r) False
             JobStatus_obs_mod_running '', Obs/Mod running'' tr
         else if status r = JobStatus_obs_mod_running \<and> status r \<noteq> JobStatus_error then
           stage_running e r JobType_run_geo_tiff JobStatus_new '', Obs/Mod complete''
             (''failed in '' @ JobType_value (job_type r) @ ''.'')
             JobType_error JobStatus_error tr
         else (Returned False, r, tr))
      else if job_type r = JobType_run_geo_tiff then
        (if status r = JobStatus_new then
           stage_new e r (tiles_params cfg r) False
             JobStatus_run_geo_tiff_running '', Geo tiff running'' tr
         else if status r = JobStatus_run_geo_tiff_running \<and> status r \<noteq> JobStatus_error then
           stage_running e r JobType_compute_mbtiles_0_9 JobStatus_new '', Geo tiff complete''
             (''failed in '' @ JobType_value (job_type r) @ ''.'')
             JobType_error JobStatus_error tr
         else (Returned False, r, tr))
      else if job_type r = JobType_compute_mbtiles_0_9 then
        (if status r = JobStatus_new then
           stage_new e r (tiles_params cfg r) False
             JobStatus_compute_mbtiles_0_9_running '', Compute mbtiles 0-9 running'' tr
         else if status r = JobStatus_compute_mbtiles_0_9_running \<and> status r \<noteq> JobStatus_error then
           stage_running e r JobType_load_geo_server JobStatus_new
             '', Compute mbtiles zoom 0-9 complete''
             (''failed in '' @ JobType_value (job_type r) @ ''.'')
             JobType_error JobStatus_error tr
         else (Returned False, r, tr))
      else if job_type r = JobType_compute_mbtiles_10 then
        (if status r = JobStatus_new then
           stage_new e r (tiles_params cfg r) False
             JobStatus_compute_mbtiles_10_running '',Compute mbtiles running'' tr
         else if status r = JobStatus_compute_mbtiles_10_running \<and> status r \<noteq> JobStatus_error then
           stage_running e r JobType_load_geo_server JobStatus_new
             '', Compute mbtiles zoom 10 complete''
             (''failed in '' @ JobType_value (job_type r) @ ''.'')
             JobType_error JobStatus_error tr
         else (Returned False, r, tr))
      else if job_type r = JobType_compute_mbtiles_11 then
        (if status r = JobStatus_new then
           stage_new e r (tiles_params cfg r) False
             JobStatus_compute_mbtiles_11_running '',Compute mbtiles running'' tr
         else if status r = JobStatus_compute_mbtiles_11_running \<and> status r \<noteq> JobStatus_error then
           stage_running e r JobType_load_geo_server JobStatus_new
             '', Compute mbtiles zoom 11 complete''
             (''failed in '' @ JobType_value (job_type r) @ ''.'')
             JobType_error JobStatus_error tr
         else (Returned False, r, tr))
      else if job_type r = JobType_load_geo_server then
        (if status r = JobStatus_new then
           stage_new e r (load_geo_server_params r) False
             JobStatus_load_geo_server_running '', Load geo server running'' tr
         else if status r = JobStatus_load_geo_server_running \<and> status r \<noteq> JobStatus_error then
           stage_running e r JobType_final_staging JobStatus_new '', Load geo server complete''
             (''failed in '' @ JobType_value (job_type r) @ ''.'')
             JobType_error JobStatus_error tr
         else (Returned False, r, tr))
      else if job_type r = JobType_final_staging then
        (if status r = JobStatus_new then
           stage_new e r (final_staging_params cfg r) False
             JobStatus_final_staging_running '', Final staging running'' tr
         else if status r = JobStatus_final_staging_running \<and> status r \<noteq> JobStatus_error then
           stage_running e r JobType_complete JobStatus_final_staging_complete
             '', Final staging complete''
             (''failed in '' @ JobType_value (job_type r) @
                ''. *Warning: Intermediate files may not have been removed.*'')
             JobType_complete JobStatus_final_staging_complete tr
         else (Returned False, r, tr))
      else (Returned False, r, tr))"

section \<open>The reconciliation loop\<close>

text \<open>
  What one pass of the body of \<^verbatim>\<open>for run in self.run_list\<close> does with its run:
  the run stays in the list, it is removed from the list, or an exception leaves the
  loop (and with it \<^verbatim>\<open>run()\<close>).
\<close>

datatype disposition = Keep | Remove | Escape

text \<open>
  The \<^verbatim>\<open>except\<close> block of the second guard, around \<^verbatim>\<open>handle_run\<close>: delete the job,
  append the fragment, write the status, set the error job type and status. Its own
  calls are not guarded.
\<close>

definition run_handler_exception ::
  "env \<Rightarrow> run_dict \<Rightarrow> event list \<Rightarrow> disposition \<times> run_dict \<times> event list" where
  "run_handler_exception e r tr =
     (case delete_job e r tr of
        (Raised, tr1) \<Rightarrow> (Escape, r, tr1)
      | (Returned final, tr1) \<Rightarrow>
          (let r1 = r\<lparr>status_prov := status_prov r @ '', Run handler error detected''\<rparr>
           in case update_job_status e (run_id r1) (status_prov r1) tr1 of
                (Raised, tr2) \<Rightarrow> (Escape, r1, tr2)
              | (Returned w, tr2) \<Rightarrow>
                  (Keep, r1\<lparr>job_type := JobType_error, status := JobStatus_error\<rparr>, tr2)))"

text \<open>
  The body of the loop for the run \<open>r\<close>, with the flag \<^verbatim>\<open>no_activity\<close> and the
  trace threaded through. The first guard covers the two dispatches on
  \<^verbatim>\<open>JobType.complete\<close> and \<^verbatim>\<open>JobType.error\<close>: an exception there is logged and the
  loop goes on, the run keeping what was assigned before the exception.
\<close>

definition evaluate_run ::
  "config \<Rightarrow> env \<Rightarrow> run_dict \<Rightarrow> bool \<Rightarrow> event list \<Rightarrow> disposition \<times> run_dict \<times> bool \<times> event list" where
  "evaluate_run cfg e r no_activity tr =
     (if job_type r = JobType_complete then
        (let r1 = r\<lparr>status_prov := status_prov r @ '', Run complete''\<rparr>
         in case update_job_status e (run_id r1) (status_prov r1) tr of
              (Raised, tr1) \<Rightarrow> (Keep, r1, no_activity, tr1)
            | (Returned w, tr1) \<Rightarrow>
                (let msg =
                       (if str_find (status_prov r1) ''Error'' = - 1
                        then ''*completed successfully*.''
                        else ''*completed unsuccessfully*.'' @ [CHR 0x0A] @
                             ''Run provenance: '' @ status_prov r1 @ ''.'')
                 in case send_slack_msg e (run_id r1) msg (Some (instance_name r1)) tr1 of
                      (Raised, tr2) \<Rightarrow> (Keep, r1, no_activity, tr2)
                    | (Returned v, tr2) \<Rightarrow> (Remove, r1, no_activity, tr2)))
      else if job_type r = JobType_error then
        (let r1 = r\<lparr>status_prov := status_prov r @ '', Error detected''\<rparr>
         in case update_job_status e (run_id r1) (status_prov r1) tr of
              (Raised, tr1) \<Rightarrow> (Keep, r1, no_activity, tr1)
            | (Returned w, tr1) \<Rightarrow>
                (Keep, r1\<lparr>job_type := JobType_final_staging, status := JobStatus_new\<rparr>,
                 no_activity, tr1))
      else
        (case handle_run cfg e r tr of
           (Returned na, r1, tr1) \<Rightarrow> (Keep, r1, na, tr1)
         | (Raised, r1, tr1) \<Rightarrow>
             (case run_handler_exception e r1 tr1 of
                (d, r2, tr2) \<Rightarrow> (d, r2, no_activity, tr2))))"

text \<open>
  \<^verbatim>\<open>for run in self.run_list\<close>. The iterator of a Python list is an index into the
  list as it is when the next element is asked for: the loop ends when the index
  reaches the current length. The run is a mutable object of the list, so what the
  body assigns to it is written at its index; \<^verbatim>\<open>self.run_list.remove(run)\<close> removes
  the first entry equal to the run.
\<close>

function for_runs ::
  "config \<Rightarrow> env \<Rightarrow> nat \<Rightarrow> run_dict list \<Rightarrow> bool \<Rightarrow> event list
     \<Rightarrow> unit outcome \<times> run_dict list \<times> bool \<times> event list" where
  "for_runs cfg e i run_list no_activity tr =
     (if i < length run_list then
        (case evaluate_run cfg e (run_list ! i) no_activity tr of
           (Keep, r1, na1, tr1) \<Rightarrow> for_runs cfg e (Suc i) (run_list[i := r1]) na1 tr1
         | (Remove, r1, na1, tr1) \<Rightarrow>
             for_runs cfg e (Suc i) (remove1 r1 (run_list[i := r1])) na1 tr1
         | (Escape, r1, na1, tr1) \<Rightarrow> (Raised, run_list[i := r1], na1, tr1))
      else (Returned (), run_list, no_activity, tr))"
  by pat_completeness auto
termination
proof (relation "measure (\<lambda>(cfg, e, i, run_list, no_activity, tr). length run_list - i)")
  show "wf (measure (\<lambda>(cfg, e, i, run_list, no_activity, tr). length run_list - i))"
    by simp
next
  fix cfg :: config and e :: env and i :: nat and run_list :: "run_dict list"
    and no_activity :: bool and tr :: "event list"
    and x :: "disposition \<times> run_dict \<times> bool \<times> event list"
    and d :: disposition and y :: "run_dict \<times> bool \<times> event list"
    and r1 :: run_dict and z :: "bool \<times> event list" and na1 :: bool and tr1 :: "event list"
  assume "i < length run_list"
  then show "((cfg, e, Suc i, run_list[i := r1], na1, tr1), cfg, e, i, run_list, no_activity, tr)
      \<in> measure (\<lambda>(cfg, e, i, run_list, no_activity, tr). length run_list - i)"
    by simp
next
  fix cfg :: config and e :: env and i :: nat and run_list :: "run_dict list"
    and no_activity :: bool and tr :: "event list"
    and x :: "disposition \<times> run_dict \<times> bool \<times> event list"
    and d :: disposition and y :: "run_dict \<times> bool \<times> event list"
    and r1 :: run_dict and z :: "bool \<times> event list" and na1 :: bool and tr1 :: "event list"
  assume less: "i < length run_list"
  have "length (remove1 r1 (run_list[i := r1])) \<le> length run_list"
    by (simp add: length_remove1)
  with less show "((cfg, e, Suc i, remove1 r1 (run_list[i := r1]), na1, tr1),
       cfg, e, i, run_list, no_activity, tr)
      \<in> measure (\<lambda>(cfg, e, i, run_list, no_activity, tr). length run_list - i)"
    by simp
qed

declare for_runs.simps [simp del]

text \<open>
  The states in which the loop starts an iteration, from the index \<open>i\<close> on and in
  order: the index, the list, the flag and the trace at that moment. The run
  evaluated in an iteration \<open>(i, run_list, no_activity, tr)\<close> is \<open>run_list ! i\<close>. The
  function follows the recursion of \<open>for_runs\<close>.
\<close>

function iterations ::
  "config \<Rightarrow> env \<Rightarrow> nat \<Rightarrow> run_dict list \<Rightarrow> bool \<Rightarrow> event list
     \<Rightarrow> (nat \<times> run_dict list \<times> bool \<times> event list) list" where
  "iterations cfg e i run_list no_activity tr =
     (if i < length run_list then
        (i, run_list, no_activity, tr) #
        (case evaluate_run cfg e (run_list ! i) no_activity tr of
           (Keep, r1, na1, tr1) \<Rightarrow> iterations cfg e (Suc i) (run_list[i := r1]) na1 tr1
         | (Remove, r1, na1, tr1) \<Rightarrow>
             iterations cfg e (Suc i) (remove1 r1 (run_list[i := r1])) na1 tr1
         | (Escape, r1, na1, tr1) \<Rightarrow> [])
      else [])"
  by pat_completeness auto
termination
proof (relation "measure (\<lambda>(cfg, e, i, run_list, no_activity, tr). length run_list - i)")
  show "wf (measure (\<lambda>(cfg, e, i, run_list, no_activity, tr). length run_list - i))"
    by simp
next
  fix cfg :: config and e :: env and i :: nat and run_list :: "run_dict list"
    and no_activity :: bool and tr :: "event list"
    and r1 :: run_dict and na1 :: bool and tr1 :: "event list"
  assume "i < length run_list"
  then show "((cfg, e, Suc i, run_list[i := r1], na1, tr1), cfg, e, i, run_list, no_activity, tr)
      \<in> measure (\<lambda>(cfg, e, i, run_list, no_activity, tr). length run_list - i)"
    by simp
next
  fix cfg :: config and e :: env and i :: nat and run_list :: "run_dict list"
    and no_activity :: bool and tr :: "event list"
    and r1 :: run_dict and na1 :: bool and tr1 :: "event list"
  assume less: "i < length run_list"
  have "length (remove1 r1 (run_list[i := r1])) \<le> length run_list"
    by (simp add: length_remove1)
  with less show "((cfg, e, Suc i, remove1 r1 (run_list[i := r1]), na1, tr1),
       cfg, e, i, run_list, no_activity, tr)
      \<in> measure (\<lambda>(cfg, e, i, run_list, no_activity, tr). length run_list - i)"
    by simp
qed

declare iterations.simps [simp del]

subsection \<open>Admission\<close>

text \<open>
  The body of \<^verbatim>\<open>for run in runs\<close> in \<^verbatim>\<open>get_incomplete_runs\<close>, for one row. The
  three \<^verbatim>\<open>in\<close> tests and the three reads that follow them are one case distinction
  on the three look-ups.
\<close>

definition admit_run ::
  "env \<Rightarrow> new_run \<Rightarrow> run_dict list \<Rightarrow> event list \<Rightarrow> unit outcome \<times> run_dict list \<times> event list" where
  "admit_run e run run_list tr =
     (let rid = new_run_id run in
      case (run_data run ''downloadurl'', run_data run ''adcirc.gridname'',
            run_data run ''instancename'') of
        (Some url, Some grid, Some inst) \<Rightarrow>
          (let run_list1 = run_list @
                 [\<lparr>run_id = rid, job_type = JobType_staging, status = JobStatus_new,
                   status_prov = ''New, Run accepted'', downloadurl = url, gridname = grid,
                   instance_name = inst, job_objs = Map.empty\<rparr>]
           in case update_job_status e rid ''New, Run accepted'' tr of
                (Raised, tr1) \<Rightarrow> (Raised, run_list1, tr1)
              | (Returned w, tr1) \<Rightarrow>
                  (case send_slack_msg e rid ''accepted.'' (Some inst) tr1 of
                     (Raised, tr2) \<Rightarrow> (Raised, run_list1, tr2)
                   | (Returned v, tr2) \<Rightarrow> (Returned (), run_list1, tr2)))
      | (url, grid, inst) \<Rightarrow>
          (case update_job_status e rid ''Error - Lacks the required run properties.'' tr of
             (Raised, tr1) \<Rightarrow> (Raised, run_list, tr1)
           | (Returned w, tr1) \<Rightarrow>
               (let instance_name = (case inst of Some n \<Rightarrow> Some n | None \<Rightarrow> None)
                in case send_slack_msg e rid ''lacked the required run properties.''
                          instance_name tr1 of
                     (Raised, tr2) \<Rightarrow> (Raised, run_list, tr2)
                   | (Returned v, tr2) \<Rightarrow> (Returned (), run_list, tr2))))"

fun admit_runs ::
  "env \<Rightarrow> new_run list \<Rightarrow> run_dict list \<Rightarrow> event list \<Rightarrow> unit outcome \<times> run_dict list \<times> event list" where
  "admit_runs e [] run_list tr = (Returned (), run_list, tr)"
| "admit_runs e (run # runs) run_list tr =
     (case admit_run e run run_list tr of
        (Raised, run_list1, tr1) \<Rightarrow> (Raised, run_list1, tr1)
      | (Returned u, run_list1, tr1) \<Rightarrow> admit_runs e runs run_list1 tr1)"

text \<open>\<^verbatim>\<open>get_incomplete_runs()\<close>. No call in it is guarded.\<close>

definition get_incomplete_runs ::
  "env \<Rightarrow> run_dict list \<Rightarrow> event list \<Rightarrow> unit outcome \<times> run_dict list \<times> event list" where
  "get_incomplete_runs e run_list tr =
     (case get_new_runs e tr of
        (Raised, tr1) \<Rightarrow> (Raised, run_list, tr1)
      | (Returned runs, tr1) \<Rightarrow>
          (case runs of
             Runs_minus_one \<Rightarrow> (Returned (), run_list, tr1)
           | Runs_None \<Rightarrow> (Returned (), run_list, tr1)
           | Runs rows \<Rightarrow> admit_runs e rows run_list tr1))"

subsection \<open>One tick and the endless loop\<close>

text \<open>
  The end of the body of \<^verbatim>\<open>while True\<close>: the idle counter and the choice of the
  sleep interval. It gives the interval and the counter kept for the next tick.
\<close>

definition poll :: "config \<Rightarrow> bool \<Rightarrow> int \<Rightarrow> int \<times> int" where
  "poll cfg no_activity no_activity_counter =
     (let counter1 = (if no_activity then no_activity_counter + 1 else 0)
      in if counter1 \<ge> 10 then (POLL_LONG_SLEEP cfg, 9)
         else (POLL_SHORT_SLEEP cfg, counter1))"

text \<open>
  One pass of the body of \<^verbatim>\<open>while True\<close>: admission, the loop over the runs from
  \<^verbatim>\<open>no_activity = True\<close>, the counter, the sleep. The state between two ticks is
  the run list, the idle counter and the trace.
\<close>

definition tick ::
  "config \<Rightarrow> env \<Rightarrow> run_dict list \<times> int \<times> event list
     \<Rightarrow> unit outcome \<times> run_dict list \<times> int \<times> event list" where
  "tick cfg e s =
     (case s of (run_list, no_activity_counter, tr) \<Rightarrow>
        (case get_incomplete_runs e run_list tr of
           (Raised, run_list1, tr1) \<Rightarrow> (Raised, run_list1, no_activity_counter, tr1)
         | (Returned u, run_list1, tr1) \<Rightarrow>
             (case for_runs cfg e 0 run_list1 True tr1 of
                (Raised, run_list2, no_activity, tr2) \<Rightarrow>
                  (Raised, run_list2, no_activity_counter, tr2)
              | (Returned v, run_list2, no_activity, tr2) \<Rightarrow>
                  (case poll cfg no_activity no_activity_counter of
                     (sleep_timeout, counter2) \<Rightarrow>
                       (Returned (), run_list2, counter2, tr2 @ [Ev_sleep sleep_timeout])))))"

text \<open>
  \<^verbatim>\<open>run()\<close>: \<^verbatim>\<open>while True\<close> never returns, so the model runs a given number of ticks:
  \<open>Returned\<close> with the state reached after that many ticks, or \<open>Raised\<close> with the
  state in which an exception left the loop.
\<close>

fun run_ticks ::
  "nat \<Rightarrow> config \<Rightarrow> env \<Rightarrow> run_dict list \<times> int \<times> event list
     \<Rightarrow> unit outcome \<times> run_dict list \<times> int \<times> event list" where
  "run_ticks 0 cfg e s = (Returned (), s)"
| "run_ticks (Suc n) cfg e s =
     (case tick cfg e s of
        (Raised, s1) \<Rightarrow> (Raised, s1)
      | (Returned u, s1) \<Rightarrow> run_ticks n cfg e s1)"

definition run :: "nat \<Rightarrow> config \<Rightarrow> env \<Rightarrow> run_dict list \<Rightarrow> unit outcome \<times> run_dict list \<times> int \<times> event list" where
  "run n cfg e run_list = run_ticks n cfg e (run_list, 0, [])"

section \<open>The stage catalog and the notification line\<close>

text \<open>
  The spec's stage catalog, for the stages that have a block in \<^verbatim>\<open>handle_run\<close>: the
  running status, the successor on success and the complete fragment of a stage. The
  job types without a block have no entry.
\<close>

fun stage_catalog :: "JobType \<Rightarrow> (JobStatus \<times> JobType \<times> string) option" where
  "stage_catalog JobType_staging =
     Some (JobStatus_staging_running, JobType_obs_mod, '', Staging complete'')"
| "stage_catalog JobType_obs_mod =
     Some (JobStatus_obs_mod_running, JobType_run_geo_tiff, '', Obs/Mod complete'')"
| "stage_catalog JobType_run_geo_tiff =
     Some (JobStatus_run_geo_tiff_running, JobType_compute_mbtiles_0_9, '', Geo tiff complete'')"
| "stage_catalog JobType_compute_mbtiles_0_9 =
     Some (JobStatus_compute_mbtiles_0_9_running, JobType_load_geo_server,
           '', Compute mbtiles zoom 0-9 complete'')"
| "stage_catalog JobType_compute_mbtiles_10 =
     Some (JobStatus_compute_mbtiles_10_running, JobType_load_geo_server,
           '', Compute mbtiles zoom 10 complete'')"
| "stage_catalog JobType_compute_mbtiles_11 =
     Some (JobStatus_compute_mbtiles_11_running, JobType_load_geo_server,
           '', Compute mbtiles zoom 11 complete'')"
| "stage_catalog JobType_load_geo_server =
     Some (JobStatus_load_geo_server_running, JobType_final_staging, '', Load geo server complete'')"
| "stage_catalog JobType_final_staging =
     Some (JobStatus_final_staging_running, JobType_complete, '', Final staging complete'')"
| "stage_catalog t = None"

text \<open>The line \<^verbatim>\<open>send_slack_msg\<close> posts for a run of the list and a message.\<close>

definition slack_line :: "run_dict \<Rightarrow> string \<Rightarrow> string" where
  "slack_line r msg =
     ''APSViz Supervisor - Instance name: '' @ instance_name r @ '', Run ID: '' @ run_id r @
     '' '' @ msg"

section \<open>Example values\<close>

text \<open>
  A configuration, an environment in which every call returns (the job finder
  answering \<open>found\<close>), and a run with a job bound for every stage.
\<close>

definition ex_template :: job_template where
  "ex_template = \<lparr>JOB_NAME = ''job-'', DATA_VOLUME_NAME = ''data-'', SSH_VOLUME_NAME = ''ssh-'',
     COMMAND_LINE = [''python''], DATA_MOUNT_PATH = ''/data'', SUB_PATH = ''/sub'',
     ADDITIONAL_PATH = ''/add''\<rparr>"

definition ex_cfg :: config where
  "ex_cfg = \<lparr>stage_templates = (\<lambda>t. Some ex_template), POLL_SHORT_SLEEP = 10,
     POLL_LONG_SLEEP = 60\<rparr>"

definition ex_env :: "int option \<times> string \<Rightarrow> env" where
  "ex_env found = \<lparr>pg_get_new_runs = (\<lambda>n. Some (Runs [])),
     pg_update_job_status = (\<lambda>n. True),
     slack_chat_postMessage = (\<lambda>n. True),
     file_get_config = (\<lambda>n. Some (\<lambda>t. Some ex_template)),
     k8s_execute = (\<lambda>n. Some ''job-1''),
     k8s_find_job_info = (\<lambda>n. Some found),
     k8s_delete_job = (\<lambda>n. Some ''OK'')\<rparr>"

definition ex_run :: "JobType \<Rightarrow> JobStatus \<Rightarrow> run_dict" where
  "ex_run t s = \<lparr>run_id = ''42'', job_type = t, status = s, status_prov = ''New, Run accepted'',
     downloadurl = ''http://x/f'', gridname = ''g1'', instance_name = ''inst-A'',
     job_objs = (\<lambda>t. Some \<lparr>run_config = ex_template, job_config = Some ''job-1''\<rparr>)\<rparr>"

section \<open>Observations of the loop\<close>

text \<open>
  The stage handler is called for a run and returns: the run is neither complete nor
  in error, and \<^verbatim>\<open>handle_run\<close> raises nothing.
\<close>

definition handled :: "config \<Rightarrow> env \<Rightarrow> run_dict \<Rightarrow> event list \<Rightarrow> bool" where
  "handled cfg e r tr =
     (job_type r \<noteq> JobType_complete \<and> job_type r \<noteq> JobType_error \<and>
      fst (handle_run cfg e r tr) \<noteq> Raised)"

text \<open>The ids of the runs the loop evaluates from the index \<open>i\<close> on.\<close>

definition evaluated_ids ::
  "config \<Rightarrow> env \<Rightarrow> nat \<Rightarrow> run_dict list \<Rightarrow> bool \<Rightarrow> event list \<Rightarrow> string list" where
  "evaluated_ids cfg e i run_list no_activity tr =
     map (\<lambda>(j, l, n, t). run_id (l ! j)) (iterations cfg e i run_list no_activity tr)"

text \<open>
  The successive states of one run under evaluations by the loop that keep it in the
  list: each state comes from the one before by \<open>evaluate_run\<close>, with whatever flag and
  trace the loop has at that moment.
\<close>

inductive run_path :: "config \<Rightarrow> env \<Rightarrow> run_dict list \<Rightarrow> bool" for cfg :: config and e :: env where
  one: "run_path cfg e [r]"
| step: "evaluate_run cfg e r na tr = (Keep, r', na', tr') \<Longrightarrow> run_path cfg e (r' # rs) \<Longrightarrow>
     run_path cfg e (r # r' # rs)"


section \<open>More example values\<close>

text \<open>
  The run an evaluation leaves, in the environment where every call returns and the
  job is found complete, and the path of a run from the job type Error on.
\<close>

definition ex_next :: "run_dict \<Rightarrow> run_dict" where
  "ex_next r = fst (snd (evaluate_run ex_cfg (ex_env (None, ''Succeeded'')) r True []))"

definition ex_path :: "run_dict list" where
  "ex_path =
     [ex_run JobType_error JobStatus_error,
      ex_next (ex_run JobType_error JobStatus_error),
      ex_next (ex_next (ex_run JobType_error JobStatus_error)),
      ex_next (ex_next (ex_next (ex_run JobType_error JobStatus_error)))]"

text \<open>A second run, a row with the three required keys and a row with one of them.\<close>

definition ex_run_43 :: run_dict where
  "ex_run_43 = (ex_run JobType_staging JobStatus_new)\<lparr>run_id := ''43''\<rparr>"

definition ex_row :: new_run where
  "ex_row = \<lparr>new_run_id = ''42'',
     run_data = map_of [(''downloadurl'', ''http://x/f''), (''adcirc.gridname'', ''g1''),
                        (''instancename'', ''inst-A'')]\<rparr>"


text \<open>
  An environment whose data base gives the rows and whose Slack client is up or down,
  and one whose job finder raises and whose job delete is up or down.
\<close>

definition ex_env_rows :: "new_run list \<Rightarrow> bool \<Rightarrow> env" where
  "ex_env_rows rows slack_up =
     (ex_env (None, ''Succeeded''))
       \<lparr>pg_get_new_runs := (\<lambda>n. Some (Runs rows)), slack_chat_postMessage := (\<lambda>n. slack_up)\<rparr>"

definition ex_env_find_raises :: "bool \<Rightarrow> env" where
  "ex_env_find_raises delete_up =
     (ex_env (None, ''Succeeded''))
       \<lparr>k8s_find_job_info := (\<lambda>n. None),
        k8s_delete_job := (\<lambda>n. if delete_up then Some ''OK'' else None)\<rparr>"

text \<open>
  The environments of two scenarios of the spec: one row is admitted in the first tick
  and every job is found complete; and the first job inspected is found with a failed
  pod, the later ones complete.
\<close>

definition ex_env_happy :: env where
  "ex_env_happy =
     (ex_env (None, ''Succeeded''))
       \<lparr>pg_get_new_runs := (\<lambda>n. if n = 0 then Some (Runs [ex_row]) else Some (Runs []))\<rparr>"

definition ex_env_pod_failure :: env where
  "ex_env_pod_failure =
     (ex_env (None, ''Succeeded''))
       \<lparr>k8s_find_job_info :=
          (\<lambda>n. if n = 1 then Some (None, ''Failed'') else Some (None, ''Succeeded''))\<rparr>"

text \<open>The provenances written to the status store and the lines sent, in a trace.\<close>

definition written :: "event list \<Rightarrow> string list" where
  "written tr = concat (map (\<lambda>ev. case ev of Ev_update_job_status i p \<Rightarrow> [p] | _ \<Rightarrow> []) tr)"

definition sent :: "event list \<Rightarrow> string list" where
  "sent tr = concat (map (\<lambda>ev. case ev of Ev_chat_postMessage m \<Rightarrow> [m] | _ \<Rightarrow> []) tr)"

section \<open>Lemmas on the strings\<close>

lemma startswith_iff: "startswith s p \<longleftrightarrow> (\<exists>ss. s = p @ ss)"
proof
  assume "startswith s p"
  then have "s = p @ drop (length p) s"
    by (metis append_take_drop_id startswith_def)
  then show "\<exists>ss. s = p @ ss" ..
next
  assume "\<exists>ss. s = p @ ss"
  then show "startswith s p" by (auto simp: startswith_def)
qed

lemma str_find_at_none:
  "0 \<le> i \<Longrightarrow> (str_find_at s sub i = - 1) = (\<not> (\<exists>ps ss. s = ps @ sub @ ss))"
proof (induction s arbitrary: i)
  case Nil
  then show ?case by auto
next
  case (Cons c cs)
  show ?case
  proof (cases "startswith (c # cs) sub")
    case True
    then obtain ss where "c # cs = sub @ ss" by (auto simp: startswith_iff)
    then have "c # cs = [] @ sub @ ss" by simp
    then have "\<exists>ps ss. c # cs = ps @ sub @ ss" by blast
    with True Cons.prems show ?thesis by simp
  next
    case False
    have "(\<exists>ps ss. c # cs = ps @ sub @ ss) = (\<exists>ps ss. cs = ps @ sub @ ss)"
    proof
      assume "\<exists>ps ss. c # cs = ps @ sub @ ss"
      then obtain ps ss where eq: "c # cs = ps @ sub @ ss" by blast
      show "\<exists>ps ss. cs = ps @ sub @ ss"
      proof (cases ps)
        case Nil
        with eq have "startswith (c # cs) sub" by (auto simp: startswith_iff)
        with False show ?thesis by simp
      next
        case (Cons p ps')
        with eq have "cs = ps' @ sub @ ss" by simp
        then show ?thesis by blast
      qed
    next
      assume "\<exists>ps ss. cs = ps @ sub @ ss"
      then obtain ps ss where "cs = ps @ sub @ ss" by blast
      then have "c # cs = (c # ps) @ sub @ ss" by simp
      then show "\<exists>ps ss. c # cs = ps @ sub @ ss" by blast
    qed
    moreover from Cons.prems have "0 \<le> i + 1" by simp
    ultimately show ?thesis using False Cons.IH [of "i + 1"] by simp
  qed
qed

lemma str_find_none: "(str_find s sub = - 1) = (\<not> (\<exists>ps ss. s = ps @ sub @ ss))"
  by (simp add: str_find_def str_find_at_none)

section \<open>Lemmas on the stage blocks\<close>

lemma send_slack_msg_Some:
  "send_slack_msg e rid msg (Some n) tr =
     chat_postMessage e
       (''APSViz Supervisor - Instance name: '' @ n @ '', Run ID: '' @ rid @ '' '' @ msg) tr"
  by (simp add: send_slack_msg_def)

lemma stage_running_complete:
  assumes "k8s_find_job_info e (length tr) = Some (None, pod)" "\<not> startswith pod ''Failed''"
    "k8s_delete_job e (Suc (length tr)) = Some final" "job_id r = Some jid"
    "pg_update_job_status e (Suc (Suc (length tr)))"
  shows "stage_running e r nt ns cf fm ft fs tr =
    (Returned False, r\<lparr>job_type := nt, status := ns, status_prov := status_prov r @ cf\<rparr>,
     tr @ [Ev_find_job_info (run_id r) (job_type r), Ev_delete_job (run_id r) (job_type r),
           Ev_update_job_status (run_id r) (status_prov r @ cf)])"
  using assms
  by (simp add: stage_running_def find_job_info_def delete_job_def update_job_status_def)

lemma stage_running_failed:
  assumes "k8s_find_job_info e (length tr) = Some (js, pod)" "startswith pod ''Failed''"
    "k8s_delete_job e (Suc (length tr)) = Some final" "job_id r = Some jid"
    "slack_chat_postMessage e (Suc (Suc (length tr)))"
  shows "stage_running e r nt ns cf fm ft fs tr =
    (Returned False, r\<lparr>job_type := ft, status := fs\<rparr>,
     tr @ [Ev_find_job_info (run_id r) (job_type r), Ev_delete_job (run_id r) (job_type r),
           Ev_chat_postMessage (slack_line r fm)])"
  using assms
  by (simp add: stage_running_def find_job_info_def delete_job_def send_slack_msg_Some
      chat_postMessage_def slack_line_def)

lemma stage_running_active:
  assumes "k8s_find_job_info e (length tr) = Some (Some n, pod)" "\<not> startswith pod ''Failed''"
  shows "stage_running e r nt ns cf fm ft fs tr =
    (Returned False, r, tr @ [Ev_find_job_info (run_id r) (job_type r)])"
  using assms
  by (simp add: stage_running_def find_job_info_def)

lemma handle_run_catalog:
  assumes "stage_catalog (job_type r) = Some (running, next_type, fragment)" "status r = running"
  shows "handle_run cfg e r tr =
     stage_running e r next_type
       (if job_type r = JobType_final_staging
        then JobStatus_final_staging_complete else JobStatus_new)
       fragment
       (''failed in '' @ JobType_value (job_type r) @
          (if job_type r = JobType_final_staging
           then ''. *Warning: Intermediate files may not have been removed.*'' else ''.''))
       (if job_type r = JobType_final_staging then JobType_complete else JobType_error)
       (if job_type r = JobType_final_staging
        then JobStatus_final_staging_complete else JobStatus_error) tr"
  using assms by (cases "job_type r") (simp_all add: handle_run_def)

lemma handle_run_final_staging_running:
  assumes "job_type r = JobType_final_staging" "status r = JobStatus_final_staging_running"
  shows "handle_run cfg e r tr =
     stage_running e r JobType_complete JobStatus_final_staging_complete
       '', Final staging complete''
       (''failed in final-staging. *Warning: Intermediate files may not have been removed.*'')
       JobType_complete JobStatus_final_staging_complete tr"
  using assms by (simp add: handle_run_def)

lemma evaluate_run_handled:
  assumes "job_type r \<noteq> JobType_complete" "job_type r \<noteq> JobType_error"
    "handle_run cfg e r tr = (Returned b, r1, tr1)"
  shows "evaluate_run cfg e r na tr = (Keep, r1, b, tr1)"
  using assms by (simp add: evaluate_run_def)

lemma stage_catalog_not_terminal:
  "stage_catalog t = Some x \<Longrightarrow>
     t \<noteq> JobType_complete \<and> t \<noteq> JobType_error \<and> t \<noteq> JobType_compute_mbtiles_12"
  by (cases t) simp_all

lemma ex_job_id: "job_id (ex_run t s) = Some ''job-1''"
  by (simp add: job_id_def ex_run_def)

lemma ex_find_job_info:
  "k8s_find_job_info (ex_env found) (length tr) = Some (fst found, snd found)"
  by (simp add: ex_env_def)

text \<open>What the blocks leave unchanged, and the shape of what they return.\<close>

lemma k8s_create_job_obj_frame:
  "k8s_create_job_obj e r ps ext tr = (out, r', tr') \<Longrightarrow>
     run_id r' = run_id r \<and> job_type r' = job_type r \<and> status r' = status r \<and>
     status_prov r' = status_prov r"
  by (auto simp: k8s_create_job_obj_def get_config_def Let_def split: if_splits option.splits)

lemma execute_frame:
  "execute e r tr = (out, r', tr') \<Longrightarrow>
     run_id r' = run_id r \<and> job_type r' = job_type r \<and> status r' = status r \<and>
     status_prov r' = status_prov r"
  by (auto simp: execute_def Let_def split: option.splits)

lemma update_job_status_Returned:
  "update_job_status e rid p tr = (Returned u, tr') \<Longrightarrow>
     tr' = tr @ [Ev_update_job_status rid p] \<and> pg_update_job_status e (length tr)"
  by (auto simp: update_job_status_def split: if_splits)

lemma stage_new_Returned:
  assumes "stage_new e r ps ext running frag tr = (Returned b, r', tr')"
  shows "b = False \<and> run_id r' = run_id r \<and> job_type r' = job_type r \<and> status r' = running \<and>
     status_prov r' = status_prov r @ frag \<and>
     (\<exists>tr0. tr' = tr0 @ [Ev_update_job_status (run_id r') (status_prov r')] \<and>
        pg_update_job_status e (length tr0))"
proof -
  from assms obtain cl where ps: "ps = Some cl"
    by (cases ps) (auto simp: stage_new_def)
  obtain o1 r1 tr1 where c: "k8s_create_job_obj e r cl ext tr = (o1, r1, tr1)"
    by (metis prod_cases3)
  obtain o2 r2 tr2 where x: "execute e r1 tr1 = (o2, r2, tr2)"
    by (metis prod_cases3)
  let ?r4 = "r2\<lparr>status := running, status_prov := status_prov r2 @ frag\<rparr>"
  obtain o3 tr3 where u: "update_job_status e (run_id ?r4) (status_prov ?r4) tr2 = (o3, tr3)"
    by (metis prod.exhaust)
  from assms ps c x u have res: "o3 = Returned () \<and> r' = ?r4 \<and> tr' = tr3 \<and> b = False"
    by (auto simp: stage_new_def Let_def split: outcome.splits option.splits)
  from c have f1: "run_id r1 = run_id r \<and> job_type r1 = job_type r \<and> status_prov r1 = status_prov r"
    using k8s_create_job_obj_frame by blast
  from x have f2: "run_id r2 = run_id r1 \<and> job_type r2 = job_type r1 \<and> status_prov r2 = status_prov r1"
    using execute_frame by blast
  from u res have "tr3 = tr2 @ [Ev_update_job_status (run_id ?r4) (status_prov ?r4)] \<and>
      pg_update_job_status e (length tr2)"
    using update_job_status_Returned by blast
  with res f1 f2 show ?thesis by auto
qed

lemma stage_new_run_id:
  assumes "stage_new e r ps ext running frag tr = (out, r', tr')"
  shows "run_id r' = run_id r"
proof (cases ps)
  case None
  with assms show ?thesis by (simp add: stage_new_def)
next
  case (Some cl)
  obtain o1 r1 tr1 where c: "k8s_create_job_obj e r cl ext tr = (o1, r1, tr1)"
    by (metis prod_cases3)
  obtain o2 r2 tr2 where x: "execute e r1 tr1 = (o2, r2, tr2)"
    by (metis prod_cases3)
  from c have f1: "run_id r1 = run_id r" using k8s_create_job_obj_frame by blast
  from x have f2: "run_id r2 = run_id r1" using execute_frame by blast
  from assms Some c x f1 f2 show ?thesis
    by (auto simp: stage_new_def Let_def split: outcome.splits option.splits prod.splits)
qed

lemma stage_running_Returned:
  assumes "stage_running e r nt ns cf fm ft fs tr = (Returned b, r', tr')"
  shows "b = False \<and>
     (r' = r
      \<or> (r' = r\<lparr>job_type := nt, status := ns, status_prov := status_prov r @ cf\<rparr> \<and>
         (\<exists>tr0. tr' = tr0 @ [Ev_update_job_status (run_id r) (status_prov r @ cf)] \<and>
            pg_update_job_status e (length tr0)))
      \<or> (r' = r\<lparr>job_type := ft, status := fs\<rparr> \<and>
         (\<exists>tr0. tr' = tr0 @ [Ev_chat_postMessage (slack_line r fm)])))"
  using assms
  by (auto simp: stage_running_def find_job_info_def delete_job_def update_job_status_def
      send_slack_msg_Some chat_postMessage_def slack_line_def Let_def
      split: option.splits if_splits)

lemma stage_running_run_id:
  assumes "stage_running e r nt ns cf fm ft fs tr = (out, r', tr')"
  shows "run_id r' = run_id r"
  using assms
  by (auto simp: stage_running_def find_job_info_def delete_job_def update_job_status_def
      send_slack_msg_Some chat_postMessage_def Let_def
      split: option.splits if_splits)

lemma handle_run_shape:
  "handle_run cfg e r tr = (Returned False, r, tr)
   \<or> (\<exists>ps ext running frag. handle_run cfg e r tr = stage_new e r ps ext running frag tr)
   \<or> (\<exists>nt ns cf suffix ft fs.
         handle_run cfg e r tr =
           stage_running e r nt ns cf (''failed in '' @ JobType_value (job_type r) @ suffix) ft fs tr \<and>
         ((ft = JobType_error \<and> fs = JobStatus_error) \<or>
          (ft = JobType_complete \<and> fs = JobStatus_final_staging_complete)))"
  unfolding handle_run_def by (simp; blast)

lemma handle_run_run_id:
  assumes "handle_run cfg e r tr = (out, r', tr')"
  shows "run_id r' = run_id r"
  using handle_run_shape [of cfg e r tr] assms stage_new_run_id stage_running_run_id
  by (metis prod.inject)

lemma handle_run_Returned:
  assumes "handle_run cfg e r tr = (Returned b, r', tr')"
  shows "b = False \<and>
     (r' = r
      \<or> (\<exists>tr0. tr' = tr0 @ [Ev_update_job_status (run_id r') (status_prov r')] \<and>
            pg_update_job_status e (length tr0))
      \<or> (status_prov r' = status_prov r \<and>
          (\<exists>tr0 suffix. tr' = tr0 @ [Ev_chat_postMessage
               (slack_line r (''failed in '' @ JobType_value (job_type r) @ suffix))]) \<and>
          ((job_type r' = JobType_error \<and> status r' = JobStatus_error) \<or>
           (job_type r' = JobType_complete \<and> status r' = JobStatus_final_staging_complete))))"
proof -
  consider (none) "handle_run cfg e r tr = (Returned False, r, tr)"
    | (new) ps ext running frag where "handle_run cfg e r tr = stage_new e r ps ext running frag tr"
    | (running) nt ns cf suffix ft fs where
        "handle_run cfg e r tr =
           stage_running e r nt ns cf (''failed in '' @ JobType_value (job_type r) @ suffix) ft fs tr"
        "(ft = JobType_error \<and> fs = JobStatus_error) \<or>
          (ft = JobType_complete \<and> fs = JobStatus_final_staging_complete)"
    using handle_run_shape [of cfg e r tr] by blast
  then show ?thesis
  proof cases
    case none
    with assms show ?thesis by simp
  next
    case new
    with assms have "stage_new e r ps ext running frag tr = (Returned b, r', tr')" by simp
    from stage_new_Returned [OF this] show ?thesis by blast
  next
    case running
    with assms have "stage_running e r nt ns cf
        (''failed in '' @ JobType_value (job_type r) @ suffix) ft fs tr = (Returned b, r', tr')"
      by simp
    from stage_running_Returned [OF this] running(2) show ?thesis
      by (elim conjE disjE) (simp; blast)+
  qed
qed

lemma run_handler_exception_cases:
  assumes "run_handler_exception e r tr = (d, r', tr')"
  shows "run_id r' = run_id r \<and>
     (d = Escape \<or>
      (d = Keep \<and> job_type r' = JobType_error \<and> status r' = JobStatus_error \<and>
       (\<exists>tr0. tr' = tr0 @ [Ev_update_job_status (run_id r') (status_prov r')] \<and>
          pg_update_job_status e (length tr0))))"
  using assms
  by (auto simp: run_handler_exception_def delete_job_def update_job_status_def Let_def
      split: option.splits if_splits)

lemma run_handler_exception_Escape_iff:
  "(fst (run_handler_exception e r tr) = Escape) =
     (k8s_delete_job e (length tr) = None \<or> \<not> pg_update_job_status e (Suc (length tr)))"
  by (auto simp: run_handler_exception_def delete_job_def update_job_status_def Let_def
      split: option.splits if_splits)

lemma evaluate_run_flag:
  assumes "evaluate_run cfg e r na tr = (d, r', na', tr')"
  shows "na' = (na \<and> \<not> handled cfg e r tr)"
proof -
  obtain out r1 tr1 where h: "handle_run cfg e r tr = (out, r1, tr1)"
    by (metis prod_cases3)
  show ?thesis
  proof (cases out)
    case (Returned b)
    with h have "b = False" using handle_run_Returned by blast
    with assms h Returned show ?thesis
      by (auto simp: evaluate_run_def handled_def Let_def update_job_status_def
          send_slack_msg_Some chat_postMessage_def split: if_splits)
  next
    case Raised
    with assms h show ?thesis
      by (auto simp: evaluate_run_def handled_def Let_def update_job_status_def
          send_slack_msg_Some chat_postMessage_def split: if_splits prod.splits)
  qed
qed

lemma evaluate_run_run_id:
  assumes "evaluate_run cfg e r na tr = (d, r', na', tr')"
  shows "run_id r' = run_id r"
proof -
  obtain out r1 tr1 where h: "handle_run cfg e r tr = (out, r1, tr1)"
    by (metis prod_cases3)
  obtain d2 r2 tr2 where x: "run_handler_exception e r1 tr1 = (d2, r2, tr2)"
    by (metis prod_cases3)
  from h have "run_id r1 = run_id r" by (rule handle_run_run_id)
  moreover from x have "run_id r2 = run_id r1" using run_handler_exception_cases by blast
  ultimately show ?thesis
    using assms h x
    by (cases out)
      (auto simp: evaluate_run_def Let_def update_job_status_def send_slack_msg_Some
        chat_postMessage_def split: if_splits)
qed

lemma evaluate_run_Escape_iff:
  "(fst (evaluate_run cfg e r na tr) = Escape) =
     (job_type r \<noteq> JobType_complete \<and> job_type r \<noteq> JobType_error \<and>
      (\<exists>r1 tr1. handle_run cfg e r tr = (Raised, r1, tr1) \<and>
         fst (run_handler_exception e r1 tr1) = Escape))"
proof -
  obtain out r1 tr1 where h: "handle_run cfg e r tr = (out, r1, tr1)"
    by (metis prod_cases3)
  then show ?thesis
    by (cases out)
      (auto simp: evaluate_run_def Let_def update_job_status_def send_slack_msg_Some
        chat_postMessage_def split: if_splits prod.splits)
qed

section \<open>Lemmas on the loop\<close>

text \<open>
  Induction over the iterations of \<^verbatim>\<open>for run in self.run_list\<close>: the loop stops at the
  end of the list, and otherwise goes on from the next index with the list the
  evaluation leaves.
\<close>

lemma loop_induct [case_names stop step]:
  assumes stop: "\<And>i rl na tr. \<not> i < length rl \<Longrightarrow> P i rl na tr"
    and step: "\<And>i rl na tr d r1 na1 tr1.
        i < length rl \<Longrightarrow> evaluate_run cfg e (rl ! i) na tr = (d, r1, na1, tr1) \<Longrightarrow>
        (d = Keep \<Longrightarrow> P (Suc i) (rl[i := r1]) na1 tr1) \<Longrightarrow>
        (d = Remove \<Longrightarrow> P (Suc i) (remove1 r1 (rl[i := r1])) na1 tr1) \<Longrightarrow>
        P i rl na tr"
  shows "P i rl (na :: bool) (tr :: event list)"
proof -
  have "\<forall>i rl na tr. length rl - i = m \<longrightarrow> P i rl na tr" for m
  proof (induction m rule: less_induct)
    case (less m)
    show ?case
    proof (intro allI impI)
      fix i :: nat and rl :: "run_dict list" and na :: bool and tr :: "event list"
      assume len: "length rl - i = m"
      show "P i rl na tr"
      proof (cases "i < length rl")
        case False
        then show ?thesis by (rule stop)
      next
        case True
        obtain d r1 na1 tr1 where ev: "evaluate_run cfg e (rl ! i) na tr = (d, r1, na1, tr1)"
          by (metis prod_cases4)
        have "length (remove1 r1 (rl[i := r1])) \<le> length rl"
          by (simp add: length_remove1)
        with True len have m: "length (rl[i := r1]) - Suc i < m"
          "length (remove1 r1 (rl[i := r1])) - Suc i < m"
          by simp_all
        show ?thesis
        proof (rule step [OF True ev])
          show "P (Suc i) (rl[i := r1]) na1 tr1"
            using less.IH [OF m(1)] by simp
          show "P (Suc i) (remove1 r1 (rl[i := r1])) na1 tr1"
            using less.IH [OF m(2)] by simp
        qed
      qed
    qed
  qed
  then show ?thesis by simp
qed

lemma for_runs_stop: "\<not> i < length rl \<Longrightarrow> for_runs cfg e i rl na tr = (Returned (), rl, na, tr)"
  by (simp add: for_runs.simps [of cfg e i rl na tr])

lemma for_runs_step:
  assumes "i < length rl" "evaluate_run cfg e (rl ! i) na tr = (d, r1, na1, tr1)"
  shows "for_runs cfg e i rl na tr =
    (case d of Keep \<Rightarrow> for_runs cfg e (Suc i) (rl[i := r1]) na1 tr1
     | Remove \<Rightarrow> for_runs cfg e (Suc i) (remove1 r1 (rl[i := r1])) na1 tr1
     | Escape \<Rightarrow> (Raised, rl[i := r1], na1, tr1))"
  using assms by (cases d) (simp_all add: for_runs.simps [of cfg e i rl na tr])

lemma iterations_stop: "\<not> i < length rl \<Longrightarrow> iterations cfg e i rl na tr = []"
  by (simp add: iterations.simps [of cfg e i rl na tr])

lemma iterations_step:
  assumes "i < length rl" "evaluate_run cfg e (rl ! i) na tr = (d, r1, na1, tr1)"
  shows "iterations cfg e i rl na tr = (i, rl, na, tr) #
    (case d of Keep \<Rightarrow> iterations cfg e (Suc i) (rl[i := r1]) na1 tr1
     | Remove \<Rightarrow> iterations cfg e (Suc i) (remove1 r1 (rl[i := r1])) na1 tr1
     | Escape \<Rightarrow> [])"
  using assms by (cases d) (simp_all add: iterations.simps [of cfg e i rl na tr])

text \<open>
  Every state that \<open>iterations\<close> lists is a state the loop passes through: the loop
  run from there ends as the whole loop does.
\<close>

lemma iterations_for_runs:
  "(j, l, n, t) \<in> set (iterations cfg e i rl na tr) \<Longrightarrow>
     for_runs cfg e j l n t = for_runs cfg e i rl na tr"
proof (induction i rl na tr rule: loop_induct [where cfg = cfg and e = e])
  case (stop i rl na tr)
  then show ?case by (simp add: iterations_stop)
next
  case (step i rl na tr d r1 na1 tr1)
  note it = iterations_step [OF step(1,2)]
  note fr = for_runs_step [OF step(1,2)]
  show ?case
  proof (cases "(j, l, n, t) = (i, rl, na, tr)")
    case True
    then show ?thesis by simp
  next
    case False
    show ?thesis
    proof (cases d)
      case Keep
      with step(5) False it have "(j, l, n, t) \<in> set (iterations cfg e (Suc i) (rl[i := r1]) na1 tr1)"
        by auto
      with step(3) Keep fr show ?thesis by simp
    next
      case Remove
      with step(5) False it
      have "(j, l, n, t) \<in> set (iterations cfg e (Suc i) (remove1 r1 (rl[i := r1])) na1 tr1)"
        by auto
      with step(4) Remove fr show ?thesis by simp
    next
      case Escape
      with step(5) False it show ?thesis by auto
    qed
  qed
qed

lemma for_runs_flag:
  "for_runs cfg e i rl na tr = (out, rl', na', tr') \<Longrightarrow>
     na' = (na \<and> (\<forall>(j, l, n, t) \<in> set (iterations cfg e i rl na tr). \<not> handled cfg e (l ! j) t))"
proof (induction i rl na tr rule: loop_induct [where cfg = cfg and e = e])
  case (stop i rl na tr)
  then show ?case by (simp add: for_runs_stop iterations_stop)
next
  case (step i rl na tr d r1 na1 tr1)
  from step(2) have fl: "na1 = (na \<and> \<not> handled cfg e (rl ! i) tr)"
    by (rule evaluate_run_flag)
  show ?case
  proof (cases d)
    case Keep
    with step show ?thesis
      by (auto simp: for_runs_step [OF step(1,2)] iterations_step [OF step(1,2)] fl)
  next
    case Remove
    with step show ?thesis
      by (auto simp: for_runs_step [OF step(1,2)] iterations_step [OF step(1,2)] fl)
  next
    case Escape
    with step(5) fl show ?thesis
      by (auto simp: for_runs_step [OF step(1,2)] iterations_step [OF step(1,2)])
  qed
qed

lemma for_runs_Raised_iff:
  "(fst (for_runs cfg e i rl na tr) = Raised) =
     (\<exists>(j, l, n, t) \<in> set (iterations cfg e i rl na tr). fst (evaluate_run cfg e (l ! j) n t) = Escape)"
proof (induction i rl na tr rule: loop_induct [where cfg = cfg and e = e])
  case (stop i rl na tr)
  then show ?case by (simp add: for_runs_stop iterations_stop)
next
  case (step i rl na tr d r1 na1 tr1)
  show ?case
  proof (cases d)
    case Keep
    with step show ?thesis
      by (simp add: for_runs_step [OF step(1,2)] iterations_step [OF step(1,2)])
  next
    case Remove
    with step show ?thesis
      by (simp add: for_runs_step [OF step(1,2)] iterations_step [OF step(1,2)])
  next
    case Escape
    with step show ?thesis
      by (simp add: for_runs_step [OF step(1,2)] iterations_step [OF step(1,2)])
  qed
qed

lemma poll_cases:
  "poll cfg False c = (POLL_SHORT_SLEEP cfg, 0)"
  "9 \<le> c \<Longrightarrow> poll cfg True c = (POLL_LONG_SLEEP cfg, 9)"
  "c < 9 \<Longrightarrow> poll cfg True c = (POLL_SHORT_SLEEP cfg, c + 1)"
  by (simp_all add: poll_def)

lemma idle_counter:
  "((\<lambda>c. snd (poll cfg True c)) ^^ k) 0 = min (int k) 9"
proof (induction k)
  case 0
  show ?case by simp
next
  case (Suc k)
  then show ?case by (simp add: poll_def min_def)
qed

lemma idle_sleep:
  "fst (poll cfg True (((\<lambda>c. snd (poll cfg True c)) ^^ k) 0)) =
     (if 9 \<le> k then POLL_LONG_SLEEP cfg else POLL_SHORT_SLEEP cfg)"
  unfolding idle_counter by (simp add: poll_def min_def)

lemma tick_Returned:
  assumes "get_incomplete_runs e rl tr = (Returned u, rl1, tr1)"
    and "for_runs cfg e 0 rl1 True tr1 = (Returned v, rl2, na2, tr2)"
  shows "tick cfg e (rl, c, tr) =
     (Returned (), rl2, snd (poll cfg na2 c), tr2 @ [Ev_sleep (fst (poll cfg na2 c))])"
  using assms by (simp add: tick_def split: prod.splits)

lemma tick_Raised_iff:
  "(fst (tick cfg e (rl, c, tr)) = Raised) =
     (fst (get_incomplete_runs e rl tr) = Raised \<or>
      (\<exists>rl1 tr1. get_incomplete_runs e rl tr = (Returned (), rl1, tr1) \<and>
         fst (for_runs cfg e 0 rl1 True tr1) = Raised))"
proof -
  obtain o1 rl1 tr1 where g: "get_incomplete_runs e rl tr = (o1, rl1, tr1)"
    by (metis prod_cases3)
  obtain o2 rl2 na2 tr2 where f: "for_runs cfg e 0 rl1 True tr1 = (o2, rl2, na2, tr2)"
    by (metis prod_cases4)
  show ?thesis
    using g f by (cases o1; cases o2) (auto simp: tick_def split: prod.splits)
qed

lemma tick_not_Raised:
  assumes "fst (tick cfg e (rl, c, tr)) \<noteq> Raised"
  shows "\<exists>rl' c' tr' sleep. tick cfg e (rl, c, tr) = (Returned (), rl', c', tr' @ [Ev_sleep sleep])"
proof -
  obtain o1 rl1 tr1 where g: "get_incomplete_runs e rl tr = (o1, rl1, tr1)"
    by (metis prod_cases3)
  obtain o2 rl2 na2 tr2 where f: "for_runs cfg e 0 rl1 True tr1 = (o2, rl2, na2, tr2)"
    by (metis prod_cases4)
  from assms g f have "o1 = Returned ()" "o2 = Returned ()"
    by (cases o1; cases o2; simp add: tick_def)+
  with g f have "tick cfg e (rl, c, tr) =
     (Returned (), rl2, snd (poll cfg na2 c), tr2 @ [Ev_sleep (fst (poll cfg na2 c))])"
    by (simp add: tick_Returned)
  then show ?thesis by blast
qed

text \<open>The list behind the index when a run is written back or removed.\<close>

lemma drop_Suc_remove1:
  "i < length xs \<Longrightarrow> xs ! i = x \<Longrightarrow> drop (Suc i) (remove1 x xs) = drop (Suc (Suc i)) xs"
proof (induction xs arbitrary: i)
  case Nil
  then show ?case by simp
next
  case (Cons a as)
  show ?case
  proof (cases "x = a")
    case True
    then show ?thesis by simp
  next
    case False
    with Cons.prems obtain k where k: "i = Suc k" by (cases i) auto
    with Cons.prems have "k < length as" "as ! k = x" by simp_all
    then have "drop (Suc k) (remove1 x as) = drop (Suc (Suc k)) as" by (rule Cons.IH)
    with False k show ?thesis by simp
  qed
qed

lemma distinct_map_remove1: "distinct (map f xs) \<Longrightarrow> distinct (map f (remove1 x xs))"
proof (induction xs)
  case Nil
  then show ?case by simp
next
  case (Cons a as)
  have "set (remove1 x as) \<subseteq> set as" by (rule set_remove1_subset)
  with Cons show ?case by auto
qed

lemma distinct_map_later:
  assumes "distinct (map f xs)" "i < length xs" "y \<in> set (drop (Suc i) xs)"
  shows "f y \<noteq> f (xs ! i)"
proof -
  have "xs = take i xs @ xs ! i # drop (Suc i) xs"
    using assms(2) by (rule id_take_nth_drop)
  then have "map f xs = map f (take i xs) @ f (xs ! i) # map f (drop (Suc i) xs)"
    by (metis list.simps(9) map_append)
  with assms(1) have "f (xs ! i) \<notin> f ` set (drop (Suc i) xs)"
    by (metis distinct.simps(2) distinct_append list.set_map)
  with assms(3) show ?thesis by (metis imageI)
qed

lemma nth_in_drop: "k \<le> m \<Longrightarrow> m < length xs \<Longrightarrow> xs ! m \<in> set (drop k xs)"
proof -
  assume a: "k \<le> m" "m < length xs"
  then have "drop k xs ! (m - k) = xs ! m" by simp
  moreover from a have "m - k < length (drop k xs)" by simp
  ultimately show ?thesis by (metis nth_mem)
qed

lemma next_list_facts:
  assumes "i < length rl" "run_id r1 = run_id (rl ! i)" "distinct (map run_id rl)"
  shows "distinct (map run_id (rl[i := r1]))"
    and "distinct (map run_id (remove1 r1 (rl[i := r1])))"
    and "drop (Suc i) (rl[i := r1]) = drop (Suc i) rl"
    and "drop (Suc i) (remove1 r1 (rl[i := r1])) = drop (Suc (Suc i)) rl"
proof -
  have "map run_id (rl[i := r1]) = (map run_id rl)[i := run_id (rl ! i)]"
    using assms(2) by (simp add: map_update)
  also have "\<dots> = map run_id rl"
    using assms(1) by (metis list_update_id map_update)
  finally show d: "distinct (map run_id (rl[i := r1]))"
    using assms(3) by simp
  then show "distinct (map run_id (remove1 r1 (rl[i := r1])))"
    by (rule distinct_map_remove1)
  show "drop (Suc i) (rl[i := r1]) = drop (Suc i) rl" by simp
  from assms(1) have "drop (Suc i) (remove1 r1 (rl[i := r1])) = drop (Suc (Suc i)) (rl[i := r1])"
    by (intro drop_Suc_remove1) simp_all
  then show "drop (Suc i) (remove1 r1 (rl[i := r1])) = drop (Suc (Suc i)) rl" by simp
qed

lemma iterations_in_drop:
  "(j, l, n, t) \<in> set (iterations cfg e i rl na tr) \<Longrightarrow>
     i \<le> j \<and> j < length l \<and> set (drop j l) \<subseteq> set (drop i rl)"
proof (induction i rl na tr rule: loop_induct [where cfg = cfg and e = e])
  case (stop i rl na tr)
  then show ?case by (simp add: iterations_stop)
next
  case (step i rl na tr d r1 na1 tr1)
  note it = iterations_step [OF step(1,2)]
  show ?case
  proof (cases "(j, l, n, t) = (i, rl, na, tr)")
    case True
    with step(1) show ?thesis by simp
  next
    case False
    have sub1: "set (drop (Suc i) rl) \<subseteq> set (drop i rl)"
      by (rule set_drop_subset_set_drop) simp
    have sub2: "set (drop (Suc (Suc i)) rl) \<subseteq> set (drop i rl)"
      by (rule set_drop_subset_set_drop) simp
    show ?thesis
    proof (cases d)
      case Keep
      with step(5) False it have "(j, l, n, t) \<in> set (iterations cfg e (Suc i) (rl[i := r1]) na1 tr1)"
        by auto
      with step(3) Keep have "Suc i \<le> j \<and> j < length l \<and> set (drop j l) \<subseteq> set (drop (Suc i) (rl[i := r1]))"
        by simp
      with sub1 show ?thesis by auto
    next
      case Remove
      with step(5) False it
      have "(j, l, n, t) \<in> set (iterations cfg e (Suc i) (remove1 r1 (rl[i := r1])) na1 tr1)"
        by auto
      with step(4) Remove have a: "Suc i \<le> j \<and> j < length l \<and>
          set (drop j l) \<subseteq> set (drop (Suc i) (remove1 r1 (rl[i := r1])))"
        by simp
      from step(1) have "drop (Suc i) (remove1 r1 (rl[i := r1])) = drop (Suc (Suc i)) (rl[i := r1])"
        by (intro drop_Suc_remove1) simp_all
      then have "drop (Suc i) (remove1 r1 (rl[i := r1])) = drop (Suc (Suc i)) rl" by simp
      with a sub2 show ?thesis by auto
    next
      case Escape
      with step(5) False it show ?thesis by auto
    qed
  qed
qed

lemma removal_skips_general:
  assumes "distinct (map run_id rl)"
    and "(j, l, n, t) \<in> set (iterations cfg e i rl na tr)"
    and "fst (evaluate_run cfg e (l ! j) n t) = Remove"
    and "Suc j < length l"
    and "(j', l', n', t') \<in> set (iterations cfg e i rl na tr)"
  shows "run_id (l' ! j') \<noteq> run_id (l ! Suc j)"
  using assms
proof (induction i rl na tr rule: loop_induct [where cfg = cfg and e = e])
  case (stop i rl na tr)
  then show ?case by (simp add: iterations_stop)
next
  case (step i rl na tr d r1 na1 tr1)
  note it = iterations_step [OF step(1,2)]
  have rid: "run_id r1 = run_id (rl ! i)"
    using step(2) by (rule evaluate_run_run_id)
  note nl = next_list_facts [OF step(1) rid step.prems(1)]
  let ?rest = "case d of Keep \<Rightarrow> iterations cfg e (Suc i) (rl[i := r1]) na1 tr1
     | Remove \<Rightarrow> iterations cfg e (Suc i) (remove1 r1 (rl[i := r1])) na1 tr1
     | Escape \<Rightarrow> []"
  have in_rest: "set (drop q m) \<subseteq> set (drop (Suc i) rl) \<and> Suc i \<le> q \<and> q < length m \<and>
      (d = Remove \<longrightarrow> set (drop q m) \<subseteq> set (drop (Suc (Suc i)) rl))"
    if "(q, m, b, u) \<in> set ?rest" for q m b u
  proof (cases d)
    case Keep
    with that have "(q, m, b, u) \<in> set (iterations cfg e (Suc i) (rl[i := r1]) na1 tr1)" by simp
    from iterations_in_drop [OF this] nl(3) Keep show ?thesis by simp
  next
    case Remove
    with that have "(q, m, b, u) \<in> set (iterations cfg e (Suc i) (remove1 r1 (rl[i := r1])) na1 tr1)"
      by simp
    from iterations_in_drop [OF this] nl(4)
    have a: "Suc i \<le> q \<and> q < length m \<and> set (drop q m) \<subseteq> set (drop (Suc (Suc i)) rl)"
      by simp
    have "set (drop (Suc (Suc i)) rl) \<subseteq> set (drop (Suc i) rl)"
      by (rule set_drop_subset_set_drop) simp
    with a show ?thesis by auto
  next
    case Escape
    with that show ?thesis by simp
  qed
  show ?case
  proof (cases "(j, l, n, t) = (i, rl, na, tr)")
    case A: True
    show ?thesis
    proof (cases "(j', l', n', t') = (i, rl, na, tr)")
      case True
      from A step.prems(4) have "rl ! Suc i \<in> set (drop (Suc i) rl)"
        by (intro nth_in_drop) simp_all
      from distinct_map_later [OF step.prems(1) step(1) this] A True show ?thesis by simp
    next
      case False
      with step.prems(5) it have mem: "(j', l', n', t') \<in> set ?rest" by auto
      from A step.prems(3) step(2) have "d = Remove" by simp
      with in_rest [OF mem] have sub: "set (drop j' l') \<subseteq> set (drop (Suc (Suc i)) rl)"
        and len: "j' < length l'" by simp_all
      from len have "l' ! j' \<in> set (drop j' l')" by (intro nth_in_drop) simp_all
      with sub have "l' ! j' \<in> set (drop (Suc (Suc i)) rl)" by blast
      moreover from A step.prems(4) have "Suc i < length rl" by simp
      ultimately have "run_id (l' ! j') \<noteq> run_id (rl ! Suc i)"
        using distinct_map_later [OF step.prems(1)] by blast
      with A show ?thesis by simp
    qed
  next
    case notA: False
    with step.prems(2) it have memA: "(j, l, n, t) \<in> set ?rest" by auto
    show ?thesis
    proof (cases "(j', l', n', t') = (i, rl, na, tr)")
      case True
      from in_rest [OF memA] have sub: "set (drop j l) \<subseteq> set (drop (Suc i) rl)" by simp
      from step.prems(4) have "l ! Suc j \<in> set (drop j l)" by (intro nth_in_drop) simp_all
      with sub have "l ! Suc j \<in> set (drop (Suc i) rl)" by blast
      from distinct_map_later [OF step.prems(1) step(1) this] True show ?thesis by simp
    next
      case False
      with step.prems(5) it have memB: "(j', l', n', t') \<in> set ?rest" by auto
      show ?thesis
      proof (cases d)
        case Keep
        with memA memB step.prems(3,4) nl(1) step(3) show ?thesis by simp
      next
        case Remove
        with memA memB step.prems(3,4) nl(2) step(4) show ?thesis by simp
      next
        case Escape
        with memA show ?thesis by simp
      qed
    qed
  qed
qed

section \<open>The running block of a stage\<close>

text \<open>
  C1, as amended. Take a run in one of the stages that have a block (Staging, ObsMod,
  GeoTiff, Mbtiles0_9, Mbtiles10, Mbtiles11, LoadGeoServer, FinalStaging) whose status
  is the running status of its stage and which carries the job bound for the stage,
  and an evaluation in which the job finder answers and the calls made after it
  return. If the job is no longer active and the pod condition does not start with
  "Failed", the job is deleted, the run gets the successor stage and the complete
  fragment of its stage, and the new provenance is written to the status store; the
  new status is New, except after FinalStaging, whose successor Complete comes with
  the status final_staging_complete. If the pod condition starts with "Failed", the
  job is deleted and a "failed in <stage>" line is sent; the run gets the job type
  Error and the status error, except in FinalStaging, where it gets Complete and
  final_staging_complete and the line carries a warning. Otherwise (the job is still
  active) the run is unchanged.
\<close>

theorem running_stage_tick:
  assumes job: "job_id r = Some jid"
    and found: "k8s_find_job_info e (length tr) = Some (job_status, pod)"
    and cat: "stage_catalog (job_type r) = Some (running, next_type, fragment)"
    and st: "status r = running"
  shows "(job_status = None \<and> \<not> startswith pod ''Failed'' \<and>
          k8s_delete_job e (Suc (length tr)) \<noteq> None \<and> pg_update_job_status e (Suc (Suc (length tr)))
          \<longrightarrow> evaluate_run cfg e r na tr =
               (Keep,
                r\<lparr>job_type := next_type,
                  status := (if job_type r = JobType_final_staging
                             then JobStatus_final_staging_complete else JobStatus_new),
                  status_prov := status_prov r @ fragment\<rparr>,
                False,
                tr @ [Ev_find_job_info (run_id r) (job_type r), Ev_delete_job (run_id r) (job_type r),
                      Ev_update_job_status (run_id r) (status_prov r @ fragment)]))
       \<and> (startswith pod ''Failed'' \<and>
          k8s_delete_job e (Suc (length tr)) \<noteq> None \<and> slack_chat_postMessage e (Suc (Suc (length tr)))
          \<longrightarrow> evaluate_run cfg e r na tr =
               (Keep,
                (if job_type r = JobType_final_staging
                 then r\<lparr>job_type := JobType_complete, status := JobStatus_final_staging_complete\<rparr>
                 else r\<lparr>job_type := JobType_error, status := JobStatus_error\<rparr>),
                False,
                tr @ [Ev_find_job_info (run_id r) (job_type r), Ev_delete_job (run_id r) (job_type r),
                      Ev_chat_postMessage
                        (slack_line r (''failed in '' @ JobType_value (job_type r) @
                           (if job_type r = JobType_final_staging
                            then ''. *Warning: Intermediate files may not have been removed.*''
                            else ''.'')))]))
       \<and> (job_status \<noteq> None \<and> \<not> startswith pod ''Failed''
          \<longrightarrow> evaluate_run cfg e r na tr =
               (Keep, r, False, tr @ [Ev_find_job_info (run_id r) (job_type r)]))"
proof -
  let ?fm = "''failed in '' @ JobType_value (job_type r) @
     (if job_type r = JobType_final_staging
      then ''. *Warning: Intermediate files may not have been removed.*'' else ''.'')"
  let ?ns = "if job_type r = JobType_final_staging
             then JobStatus_final_staging_complete else JobStatus_new"
  let ?ft = "if job_type r = JobType_final_staging then JobType_complete else JobType_error"
  let ?fs = "if job_type r = JobType_final_staging
             then JobStatus_final_staging_complete else JobStatus_error"
  from cat have nt: "job_type r \<noteq> JobType_complete" "job_type r \<noteq> JobType_error"
    using stage_catalog_not_terminal by blast+
  have h: "handle_run cfg e r tr = stage_running e r next_type ?ns fragment ?fm ?ft ?fs tr"
    by (rule handle_run_catalog [OF cat st])
  show ?thesis
  proof (intro conjI impI)
    assume a: "job_status = None \<and> \<not> startswith pod ''Failed'' \<and>
          k8s_delete_job e (Suc (length tr)) \<noteq> None \<and> pg_update_job_status e (Suc (Suc (length tr)))"
    then obtain final where "k8s_delete_job e (Suc (length tr)) = Some final" by auto
    with a found job have "handle_run cfg e r tr =
        (Returned False, r\<lparr>job_type := next_type, status := ?ns, status_prov := status_prov r @ fragment\<rparr>,
         tr @ [Ev_find_job_info (run_id r) (job_type r), Ev_delete_job (run_id r) (job_type r),
               Ev_update_job_status (run_id r) (status_prov r @ fragment)])"
      unfolding h by (intro stage_running_complete) auto
    then show "evaluate_run cfg e r na tr =
               (Keep, r\<lparr>job_type := next_type, status := ?ns,
                        status_prov := status_prov r @ fragment\<rparr>, False,
                tr @ [Ev_find_job_info (run_id r) (job_type r), Ev_delete_job (run_id r) (job_type r),
                      Ev_update_job_status (run_id r) (status_prov r @ fragment)])"
      by (rule evaluate_run_handled [OF nt])
  next
    assume a: "startswith pod ''Failed'' \<and>
          k8s_delete_job e (Suc (length tr)) \<noteq> None \<and> slack_chat_postMessage e (Suc (Suc (length tr)))"
    then obtain final where "k8s_delete_job e (Suc (length tr)) = Some final" by auto
    with a found job have "handle_run cfg e r tr =
        (Returned False, r\<lparr>job_type := ?ft, status := ?fs\<rparr>,
         tr @ [Ev_find_job_info (run_id r) (job_type r), Ev_delete_job (run_id r) (job_type r),
               Ev_chat_postMessage (slack_line r ?fm)])"
      unfolding h by (intro stage_running_failed) auto
    then have "evaluate_run cfg e r na tr =
        (Keep, r\<lparr>job_type := ?ft, status := ?fs\<rparr>, False,
         tr @ [Ev_find_job_info (run_id r) (job_type r), Ev_delete_job (run_id r) (job_type r),
               Ev_chat_postMessage (slack_line r ?fm)])"
      by (rule evaluate_run_handled [OF nt])
    then show "evaluate_run cfg e r na tr =
               (Keep,
                (if job_type r = JobType_final_staging
                 then r\<lparr>job_type := JobType_complete, status := JobStatus_final_staging_complete\<rparr>
                 else r\<lparr>job_type := JobType_error, status := JobStatus_error\<rparr>),
                False,
                tr @ [Ev_find_job_info (run_id r) (job_type r), Ev_delete_job (run_id r) (job_type r),
                      Ev_chat_postMessage (slack_line r ?fm)])"
      by (cases "job_type r = JobType_final_staging") simp_all
  next
    assume a: "job_status \<noteq> None \<and> \<not> startswith pod ''Failed''"
    then obtain n where "job_status = Some n" by auto
    with a found have "handle_run cfg e r tr =
        (Returned False, r, tr @ [Ev_find_job_info (run_id r) (job_type r)])"
      unfolding h by (intro stage_running_active) auto
    then show "evaluate_run cfg e r na tr =
               (Keep, r, False, tr @ [Ev_find_job_info (run_id r) (job_type r)])"
      by (rule evaluate_run_handled [OF nt])
  qed
qed

theorem running_stage_tick_witness:
  "evaluate_run ex_cfg (ex_env (None, ''Succeeded''))
       (ex_run JobType_staging JobStatus_staging_running) True [] =
     (Keep,
      (ex_run JobType_obs_mod JobStatus_new)\<lparr>status_prov := ''New, Run accepted, Staging complete''\<rparr>,
      False,
      [Ev_find_job_info ''42'' JobType_staging, Ev_delete_job ''42'' JobType_staging,
       Ev_update_job_status ''42'' ''New, Run accepted, Staging complete''])
   \<and> evaluate_run ex_cfg (ex_env (None, ''Failed''))
       (ex_run JobType_staging JobStatus_staging_running) True [] =
     (Keep, ex_run JobType_error JobStatus_error, False,
      [Ev_find_job_info ''42'' JobType_staging, Ev_delete_job ''42'' JobType_staging,
       Ev_chat_postMessage
         ''APSViz Supervisor - Instance name: inst-A, Run ID: 42 failed in staging.''])
   \<and> evaluate_run ex_cfg (ex_env (Some 1, ''Running''))
       (ex_run JobType_staging JobStatus_staging_running) True [] =
     (Keep, ex_run JobType_staging JobStatus_staging_running, False,
      [Ev_find_job_info ''42'' JobType_staging])"
proof -
  let ?r = "ex_run JobType_staging JobStatus_staging_running"
  have cat: "stage_catalog (job_type ?r) =
      Some (JobStatus_staging_running, JobType_obs_mod, '', Staging complete'')"
    by (simp add: ex_run_def)
  have st: "status ?r = JobStatus_staging_running"
    by (simp add: ex_run_def)
  have f: "k8s_find_job_info (ex_env found) (length ([] :: event list)) = Some (fst found, snd found)"
    for found by (rule ex_find_job_info)
  show ?thesis
    using running_stage_tick [OF ex_job_id f [of "(None, ''Succeeded'')"] cat st,
        where cfg = ex_cfg and na = True]
      running_stage_tick [OF ex_job_id f [of "(None, ''Failed'')"] cat st,
        where cfg = ex_cfg and na = True]
      running_stage_tick [OF ex_job_id f [of "(Some 1, ''Running'')"] cat st,
        where cfg = ex_cfg and na = True]
    by (simp add: startswith_def ex_env_def ex_run_def slack_line_def)
qed

text \<open>
  The claim as stated fails for FinalStaging: with a pod condition that starts with
  "Failed" the run does not get the job type Error, it gets Complete.
\<close>

theorem running_stage_tick_counterexample:
  "evaluate_run ex_cfg (ex_env (None, ''Failed''))
       (ex_run JobType_final_staging JobStatus_final_staging_running) True [] =
     (Keep, ex_run JobType_complete JobStatus_final_staging_complete, False,
      [Ev_find_job_info ''42'' JobType_final_staging, Ev_delete_job ''42'' JobType_final_staging,
       Ev_chat_postMessage
         (''APSViz Supervisor - Instance name: inst-A, Run ID: 42 failed in final-staging.'' @
          '' *Warning: Intermediate files may not have been removed.*'')])
   \<and> job_type (ex_run JobType_complete JobStatus_final_staging_complete) \<noteq> JobType_error"
  by (simp add: evaluate_run_def handle_run_def stage_running_def find_job_info_def
      delete_job_def send_slack_msg_def chat_postMessage_def job_id_def startswith_def
      ex_env_def ex_run_def)

section \<open>The dispatch on a run in error\<close>

lemma error_dispatch_ok:
  assumes "job_type r = JobType_error" "pg_update_job_status e (length tr)"
  shows "evaluate_run cfg e r na tr =
     (Keep, r\<lparr>status_prov := status_prov r @ '', Error detected'',
              job_type := JobType_final_staging, status := JobStatus_new\<rparr>, na,
      tr @ [Ev_update_job_status (run_id r) (status_prov r @ '', Error detected'')])"
  using assms by (simp add: evaluate_run_def update_job_status_def Let_def)

lemma error_step:
  assumes "job_type r = JobType_error" "evaluate_run cfg e r na tr = (d, r', na', tr')"
  shows "d = Keep \<and> (job_type r' = JobType_error \<or>
     (job_type r' = JobType_final_staging \<and> status r' = JobStatus_new))"
  using assms by (auto simp: evaluate_run_def update_job_status_def Let_def split: if_splits)

lemma path_from_error:
  assumes "run_path cfg e rs" "job_type (hd rs) = JobType_error"
  shows "(\<forall>r \<in> set rs. job_type r = JobType_error) \<or>
     (\<exists>ps r' ss. rs = ps @ r' # ss \<and> (\<forall>p \<in> set ps. job_type p = JobType_error) \<and>
        job_type r' = JobType_final_staging \<and> status r' = JobStatus_new)"
  using assms
proof (induction rule: run_path.induct)
  case (one r)
  then show ?case by simp
next
  case (step r na tr r' na' tr' rs)
  from step.prems have er: "job_type r = JobType_error" by simp
  from error_step [OF er step.hyps(1)]
  consider (again) "job_type r' = JobType_error"
    | (cleanup) "job_type r' = JobType_final_staging" "status r' = JobStatus_new"
    by blast
  then show ?case
  proof cases
    case again
    with step.IH consider (all) "\<forall>x \<in> set (r' # rs). job_type x = JobType_error"
      | (some) ps x ss where "r' # rs = ps @ x # ss" "\<forall>p \<in> set ps. job_type p = JobType_error"
          "job_type x = JobType_final_staging" "status x = JobStatus_new"
      by auto
    then show ?thesis
    proof cases
      case all
      with er show ?thesis by simp
    next
      case some
      from some(1) have "r # r' # rs = (r # ps) @ x # ss" by simp
      moreover from some(2) er have "\<forall>p \<in> set (r # ps). job_type p = JobType_error" by simp
      ultimately show ?thesis using some(3,4) by blast
    qed
  next
    case cleanup
    have "r # r' # rs = [r] @ r' # rs" by simp
    moreover from er have "\<forall>p \<in> set [r]. job_type p = JobType_error" by simp
    ultimately show ?thesis using cleanup by blast
  qed
qed

lemma ex_next_1: "ex_next (ex_run JobType_error JobStatus_error) =
   (ex_run JobType_final_staging JobStatus_new)\<lparr>status_prov := ''New, Run accepted, Error detected''\<rparr>"
  by (simp add: ex_next_def evaluate_run_def update_job_status_def ex_env_def ex_run_def)

lemma ex_step_2:
  "fst (evaluate_run ex_cfg (ex_env (None, ''Succeeded''))
     ((ex_run JobType_final_staging JobStatus_new)\<lparr>status_prov := ''New, Run accepted, Error detected''\<rparr>) True []) = Keep
   \<and> job_type (ex_next ((ex_run JobType_final_staging JobStatus_new)\<lparr>status_prov := ''New, Run accepted, Error detected''\<rparr>)) = JobType_final_staging
   \<and> status (ex_next ((ex_run JobType_final_staging JobStatus_new)\<lparr>status_prov := ''New, Run accepted, Error detected''\<rparr>)) = JobStatus_final_staging_running
   \<and> job_id (ex_next ((ex_run JobType_final_staging JobStatus_new)\<lparr>status_prov := ''New, Run accepted, Error detected''\<rparr>)) = Some ''job-1''"
  by (simp add: ex_next_def evaluate_run_def handle_run_def stage_new_def final_staging_params_def
      k8s_create_job_obj_def get_config_def execute_def update_job_status_def job_id_def
      ex_env_def ex_run_def ex_cfg_def Let_def)

lemma ex_next_step:
  assumes "fst (evaluate_run ex_cfg (ex_env (None, ''Succeeded'')) r True []) = Keep"
  shows "\<exists>na' tr'. evaluate_run ex_cfg (ex_env (None, ''Succeeded'')) r True [] =
     (Keep, ex_next r, na', tr')"
  using assms
  by (cases "evaluate_run ex_cfg (ex_env (None, ''Succeeded'')) r True []")
    (simp add: ex_next_def)

lemma ex_step_3:
  assumes "job_type r = JobType_final_staging" "status r = JobStatus_final_staging_running"
    "job_id r = Some jid"
  shows "fst (evaluate_run ex_cfg (ex_env (None, ''Succeeded'')) r True []) = Keep \<and>
    job_type (ex_next r) = JobType_complete"
proof -
  let ?e = "ex_env (None, ''Succeeded'')"
  have "handle_run ex_cfg ?e r [] =
    (Returned False,
     r\<lparr>job_type := JobType_complete, status := JobStatus_final_staging_complete,
       status_prov := status_prov r @ '', Final staging complete''\<rparr>,
     [] @ [Ev_find_job_info (run_id r) (job_type r), Ev_delete_job (run_id r) (job_type r),
           Ev_update_job_status (run_id r) (status_prov r @ '', Final staging complete'')])"
    unfolding handle_run_final_staging_running [OF assms(1,2)]
    by (rule stage_running_complete [where pod = "''Succeeded''" and final = "''OK''" and jid = jid])
      (simp_all add: ex_env_def startswith_def assms)
  with assms(1) show ?thesis
    by (simp add: ex_next_def evaluate_run_def)
qed

lemma ex_path_run_path: "run_path ex_cfg (ex_env (None, ''Succeeded'')) ex_path"
proof -
  let ?e = "ex_env (None, ''Succeeded'')"
  let ?r0 = "ex_run JobType_error JobStatus_error"
  have k0: "fst (evaluate_run ex_cfg ?e ?r0 True []) = Keep"
    by (simp add: evaluate_run_def update_job_status_def ex_env_def ex_run_def)
  have k1: "fst (evaluate_run ex_cfg ?e (ex_next ?r0) True []) = Keep"
    using ex_step_2 by (simp add: ex_next_1)
  have k2: "fst (evaluate_run ex_cfg ?e (ex_next (ex_next ?r0)) True []) = Keep"
    using ex_step_2 ex_step_3 [of "ex_next (ex_next ?r0)" "''job-1''"] by (simp add: ex_next_1)
  from ex_next_step [OF k0] ex_next_step [OF k1] ex_next_step [OF k2]
  show ?thesis
    unfolding ex_path_def by (blast intro: run_path.intros)
qed

text \<open>
  C2. For a run whose job type is Error, the dispatch of the loop appends
  ", Error detected" to the provenance and writes the new provenance to the status
  store; with the write returning, it rewrites the run to the job type FinalStaging
  with the status New. Consequently, on every path of a run that starts in Error and
  ends in Complete, the run stays in Error until it is in FinalStaging with the
  status New: it enters FinalStaging/New before it reaches Complete.
\<close>

theorem error_dispatch:
  "(job_type r = JobType_error \<longrightarrow>
      (\<exists>r'. evaluate_run cfg e r na tr =
         (Keep, r', na,
          tr @ [Ev_update_job_status (run_id r) (status_prov r @ '', Error detected'')]) \<and>
         status_prov r' = status_prov r @ '', Error detected''))
   \<and> (job_type r = JobType_error \<and> pg_update_job_status e (length tr) \<longrightarrow>
      evaluate_run cfg e r na tr =
        (Keep, r\<lparr>status_prov := status_prov r @ '', Error detected'',
                 job_type := JobType_final_staging, status := JobStatus_new\<rparr>, na,
         tr @ [Ev_update_job_status (run_id r) (status_prov r @ '', Error detected'')]))
   \<and> (run_path cfg e rs \<and> job_type (hd rs) = JobType_error \<and>
        job_type (last rs) = JobType_complete \<longrightarrow>
      (\<exists>ps r' ss. rs = ps @ r' # ss \<and> (\<forall>p \<in> set ps. job_type p = JobType_error) \<and>
         job_type r' = JobType_final_staging \<and> status r' = JobStatus_new))"
proof (intro conjI impI)
  assume "job_type r = JobType_error"
  then show "\<exists>r'. evaluate_run cfg e r na tr =
         (Keep, r', na,
          tr @ [Ev_update_job_status (run_id r) (status_prov r @ '', Error detected'')]) \<and>
         status_prov r' = status_prov r @ '', Error detected''"
    by (simp add: evaluate_run_def update_job_status_def Let_def)
next
  assume "job_type r = JobType_error \<and> pg_update_job_status e (length tr)"
  then show "evaluate_run cfg e r na tr =
        (Keep, r\<lparr>status_prov := status_prov r @ '', Error detected'',
                 job_type := JobType_final_staging, status := JobStatus_new\<rparr>, na,
         tr @ [Ev_update_job_status (run_id r) (status_prov r @ '', Error detected'')])"
    by (simp add: error_dispatch_ok)
next
  assume a: "run_path cfg e rs \<and> job_type (hd rs) = JobType_error \<and>
        job_type (last rs) = JobType_complete"
  then have ne: "rs \<noteq> []" by (auto elim: run_path.cases)
  from a path_from_error [of cfg e rs]
  consider (all) "\<forall>r \<in> set rs. job_type r = JobType_error"
    | (some) "\<exists>ps r' ss. rs = ps @ r' # ss \<and> (\<forall>p \<in> set ps. job_type p = JobType_error) \<and>
         job_type r' = JobType_final_staging \<and> status r' = JobStatus_new"
    by blast
  then show "\<exists>ps r' ss. rs = ps @ r' # ss \<and> (\<forall>p \<in> set ps. job_type p = JobType_error) \<and>
         job_type r' = JobType_final_staging \<and> status r' = JobStatus_new"
  proof cases
    case all
    with ne have "job_type (last rs) = JobType_error" by simp
    with a show ?thesis by simp
  next
    case some
    then show ?thesis .
  qed
qed

theorem error_dispatch_witness:
  "evaluate_run ex_cfg (ex_env (None, ''Succeeded'')) (ex_run JobType_error JobStatus_error) True [] =
     (Keep,
      (ex_run JobType_final_staging JobStatus_new)
        \<lparr>status_prov := ''New, Run accepted, Error detected''\<rparr>,
      True, [Ev_update_job_status ''42'' ''New, Run accepted, Error detected''])
   \<and> (\<exists>ps r' ss. ex_path = ps @ r' # ss \<and> (\<forall>p \<in> set ps. job_type p = JobType_error) \<and>
        job_type r' = JobType_final_staging \<and> status r' = JobStatus_new)"
proof -
  let ?e = "ex_env (None, ''Succeeded'')"
  let ?r0 = "ex_run JobType_error JobStatus_error"
  have h1: "job_type ?r0 = JobType_error \<and> pg_update_job_status ?e (length ([] :: event list))"
    by (simp add: ex_run_def ex_env_def)
  have hd: "job_type (hd ex_path) = JobType_error"
    by (simp add: ex_path_def ex_run_def)
  have "job_type (ex_next (ex_next (ex_next ?r0))) = JobType_complete"
    using ex_step_2 ex_step_3 [of "ex_next (ex_next ?r0)" "''job-1''"] by (simp add: ex_next_1)
  then have last: "job_type (last ex_path) = JobType_complete"
    by (simp add: ex_path_def)
  from error_dispatch [where r = ?r0 and e = ?e and tr = "[]" and cfg = ex_cfg and na = True
      and rs = ex_path] h1 ex_path_run_path hd last
  show ?thesis
    by (simp add: ex_run_def)
qed

section \<open>Transitions and the status store\<close>




section \<open>The dispatch on a complete run\<close>

text \<open>
  C4. For a run whose job type is Complete, evaluated at the index \<open>i\<close> of the list,
  with the status write and the notification returning: ", Run complete" is appended
  to the provenance; the new provenance is written to the status store; one line is
  sent, the success line if the new provenance holds no "Error" anywhere and otherwise
  the failure line with the provenance in it; and the loop goes on with the run
  removed from the list.
\<close>

theorem complete_dispatch:
  assumes "i < length run_list"
    and "run_list ! i = r"
    and "job_type r = JobType_complete"
    and "pg_update_job_status e (length tr)"
    and "slack_chat_postMessage e (Suc (length tr))"
    and "r1 = r\<lparr>status_prov := status_prov r @ '', Run complete''\<rparr>"
    and "tr1 = tr @
       [Ev_update_job_status (run_id r) (status_prov r1),
        Ev_chat_postMessage (slack_line r
          (if \<exists>ps ss. status_prov r1 = ps @ ''Error'' @ ss
           then ''*completed unsuccessfully*.'' @ [CHR 0x0A] @ ''Run provenance: '' @
                status_prov r1 @ ''.''
           else ''*completed successfully*.''))]"
  shows "evaluate_run cfg e r na tr = (Remove, r1, na, tr1)
    \<and> for_runs cfg e i run_list na tr =
        for_runs cfg e (Suc i) (remove1 r1 (run_list[i := r1])) na tr1"
proof -
  from assms(3-7) have ev: "evaluate_run cfg e r na tr = (Remove, r1, na, tr1)"
    by (simp add: evaluate_run_def update_job_status_def send_slack_msg_Some
        chat_postMessage_def slack_line_def str_find_none Let_def)
  with assms(1,2) have "for_runs cfg e i run_list na tr =
        for_runs cfg e (Suc i) (remove1 r1 (run_list[i := r1])) na tr1"
    by (simp add: for_runs.simps [of cfg e i run_list na tr])
  with ev show ?thesis by simp
qed

theorem complete_dispatch_witness:
  "evaluate_run ex_cfg (ex_env (None, ''Succeeded''))
       (ex_run JobType_complete JobStatus_final_staging_complete) True [] =
     (Remove,
      (ex_run JobType_complete JobStatus_final_staging_complete)
        \<lparr>status_prov := ''New, Run accepted, Run complete''\<rparr>,
      True,
      [Ev_update_job_status ''42'' ''New, Run accepted, Run complete'',
       Ev_chat_postMessage
         ''APSViz Supervisor - Instance name: inst-A, Run ID: 42 *completed successfully*.''])
   \<and> for_runs ex_cfg (ex_env (None, ''Succeeded'')) 0
       [ex_run JobType_complete JobStatus_final_staging_complete] True [] =
     (Returned (), [], True,
      [Ev_update_job_status ''42'' ''New, Run accepted, Run complete'',
       Ev_chat_postMessage
         ''APSViz Supervisor - Instance name: inst-A, Run ID: 42 *completed successfully*.''])"
proof -
  let ?r = "ex_run JobType_complete JobStatus_final_staging_complete"
  let ?e = "ex_env (None, ''Succeeded'')"
  have no_error: "\<not> (\<exists>ps ss. ''New, Run accepted, Run complete'' = ps @ ''Error'' @ ss)"
    using str_find_none [of "''New, Run accepted, Run complete''" "''Error''"]
    by (simp add: str_find_def startswith_def)
  have h1: "0 < length [?r]" by simp
  have h2: "[?r] ! 0 = ?r" by simp
  have h3: "job_type ?r = JobType_complete" by (simp add: ex_run_def)
  have h4: "pg_update_job_status ?e (length ([] :: event list))" by (simp add: ex_env_def)
  have h5: "slack_chat_postMessage ?e (Suc (length ([] :: event list)))" by (simp add: ex_env_def)
  have tail: "for_runs ex_cfg ?e (Suc 0) [] True t = (Returned (), [], True, t)" for t
    by (simp add: for_runs.simps [of ex_cfg ?e "Suc 0" "[]" True t])
  show ?thesis
    using complete_dispatch [OF h1 h2 h3 h4 h5 refl refl, of ex_cfg True] no_error tail
    by (simp add: ex_run_def slack_line_def)
qed

section \<open>Admission of new runs\<close>







section \<open>Exceptions and the sleep of a tick\<close>

lemma ex_find_raises_handle_run:
  "handle_run ex_cfg (ex_env_find_raises d) (ex_run JobType_staging JobStatus_staging_running)
       [Ev_get_new_runs] =
     (Raised, ex_run JobType_staging JobStatus_staging_running,
      [Ev_get_new_runs, Ev_find_job_info ''42'' JobType_staging])"
  by (simp add: handle_run_def stage_running_def find_job_info_def ex_env_find_raises_def
      ex_env_def ex_run_def)

lemma ex_find_raises_admission:
  "get_incomplete_runs (ex_env_find_raises d) rl [] = (Returned (), rl, [Ev_get_new_runs])"
  by (simp add: get_incomplete_runs_def get_new_runs_def ex_env_find_raises_def ex_env_def)

text \<open>
  C6, as amended. A tick fails to reach its sleep, the exception leaving the endless
  loop, exactly in two cases: admission raises (its fetch from the state store, its
  status write or its notification: none of them is guarded, and the notification
  sender catches nothing); or, for some run the loop evaluates, the stage handler
  raises and then the job delete or the status write of the guard around it raises
  too. Every other exception of a tick (in the dispatches on a complete run or a run
  in error, or in the stage handler with the guard's two calls returning) is caught,
  and the tick ends with its sleep.
\<close>

theorem tick_exceptions:
  "((fst (tick cfg e (rl, c, tr)) = Raised) =
      (fst (get_incomplete_runs e rl tr) = Raised \<or>
       (\<exists>rl1 tr1 j l n t r1 t1.
          get_incomplete_runs e rl tr = (Returned (), rl1, tr1) \<and>
          (j, l, n, t) \<in> set (iterations cfg e 0 rl1 True tr1) \<and>
          job_type (l ! j) \<noteq> JobType_complete \<and> job_type (l ! j) \<noteq> JobType_error \<and>
          handle_run cfg e (l ! j) t = (Raised, r1, t1) \<and>
          (k8s_delete_job e (length t1) = None \<or> \<not> pg_update_job_status e (Suc (length t1))))))
   \<and> (fst (tick cfg e (rl, c, tr)) \<noteq> Raised \<longrightarrow>
        (\<exists>rl' c' tr' sleep. tick cfg e (rl, c, tr) = (Returned (), rl', c', tr' @ [Ev_sleep sleep])))
   \<and> (fst (tick cfg e (rl, c, tr)) = Raised \<longrightarrow>
        fst (run_ticks (Suc k) cfg e (rl, c, tr)) = Raised)"
proof (intro conjI impI)
  show "(fst (tick cfg e (rl, c, tr)) = Raised) =
      (fst (get_incomplete_runs e rl tr) = Raised \<or>
       (\<exists>rl1 tr1 j l n t r1 t1.
          get_incomplete_runs e rl tr = (Returned (), rl1, tr1) \<and>
          (j, l, n, t) \<in> set (iterations cfg e 0 rl1 True tr1) \<and>
          job_type (l ! j) \<noteq> JobType_complete \<and> job_type (l ! j) \<noteq> JobType_error \<and>
          handle_run cfg e (l ! j) t = (Raised, r1, t1) \<and>
          (k8s_delete_job e (length t1) = None \<or> \<not> pg_update_job_status e (Suc (length t1)))))"
    unfolding tick_Raised_iff for_runs_Raised_iff evaluate_run_Escape_iff
      run_handler_exception_Escape_iff
    by (simp add: split_def; rule iffI; fastforce)
next
  assume "fst (tick cfg e (rl, c, tr)) \<noteq> Raised"
  then show "\<exists>rl' c' tr' sleep. tick cfg e (rl, c, tr) = (Returned (), rl', c', tr' @ [Ev_sleep sleep])"
    by (rule tick_not_Raised)
next
  assume "fst (tick cfg e (rl, c, tr)) = Raised"
  then show "fst (run_ticks (Suc k) cfg e (rl, c, tr)) = Raised"
    by (cases "tick cfg e (rl, c, tr)") simp
qed

theorem tick_exceptions_witness:
  "fst (tick ex_cfg (ex_env_find_raises False)
          ([ex_run JobType_staging JobStatus_staging_running], 0, [])) = Raised
   \<and> fst (run_ticks (Suc 0) ex_cfg (ex_env_find_raises False)
          ([ex_run JobType_staging JobStatus_staging_running], 0, [])) = Raised
   \<and> (\<exists>rl' c' tr' sleep.
        tick ex_cfg (ex_env_find_raises True)
          ([ex_run JobType_staging JobStatus_staging_running], 0, []) =
          (Returned (), rl', c', tr' @ [Ev_sleep sleep]))"
proof -
  let ?r = "ex_run JobType_staging JobStatus_staging_running"
  let ?s = "([?r], 0 :: int, [] :: event list)"
  have it: "(0, [?r], True, [Ev_get_new_runs]) \<in>
      set (iterations ex_cfg (ex_env_find_raises False) 0 [?r] True [Ev_get_new_runs])"
    by (simp add: iterations.simps [of _ _ 0 "[?r]" True "[Ev_get_new_runs]"])
  have jt: "job_type ([?r] ! 0) \<noteq> JobType_complete" "job_type ([?r] ! 0) \<noteq> JobType_error"
    by (simp_all add: ex_run_def)
  have del: "k8s_delete_job (ex_env_find_raises False)
      (length [Ev_get_new_runs, Ev_find_job_info ''42'' JobType_staging]) = None"
    by (simp add: ex_env_find_raises_def)
  have h: "handle_run ex_cfg (ex_env_find_raises False) ([?r] ! 0) [Ev_get_new_runs] =
     (Raised, ?r, [Ev_get_new_runs, Ev_find_job_info ''42'' JobType_staging])"
    using ex_find_raises_handle_run [of False] by simp
  have raised: "fst (tick ex_cfg (ex_env_find_raises False) ?s) = Raised"
    by (rule tick_exceptions [of ex_cfg "ex_env_find_raises False" "[?r]" 0 "[]" 0,
          THEN conjunct1, THEN iffD2])
      (use ex_find_raises_admission [of False "[?r]"] it jt h del in blast)
  have "tick ex_cfg (ex_env_find_raises True) ?s =
      (Returned (),
       [?r\<lparr>status_prov := ''New, Run accepted, Run handler error detected'',
            job_type := JobType_error, status := JobStatus_error\<rparr>],
       1,
       [Ev_get_new_runs, Ev_find_job_info ''42'' JobType_staging,
        Ev_delete_job ''42'' JobType_staging,
        Ev_update_job_status ''42'' ''New, Run accepted, Run handler error detected'',
        Ev_sleep 10])"
    by (simp add: tick_def get_incomplete_runs_def get_new_runs_def
        for_runs.simps [of _ _ 0] for_runs.simps [of _ _ "Suc 0"]
        evaluate_run_def handle_run_def stage_running_def find_job_info_def
        run_handler_exception_def delete_job_def update_job_status_def poll_def
        ex_env_find_raises_def ex_env_def ex_run_def ex_cfg_def)
  then have ok: "fst (tick ex_cfg (ex_env_find_raises True) ?s) \<noteq> Raised" by simp
  show ?thesis
    using raised tick_exceptions [of ex_cfg "ex_env_find_raises False" "[?r]" 0 "[]" 0]
      tick_exceptions [of ex_cfg "ex_env_find_raises True" "[?r]" 0 "[]" 0] ok
    by blast
qed

text \<open>
  The claim as stated fails for an exception of the notification call inside
  admission: with a new row accepted and the Slack client down, the tick raises before
  any sleep and the loop ends.
\<close>

theorem tick_exceptions_counterexample:
  "tick ex_cfg (ex_env_rows [ex_row] False) ([], 0, []) =
     (Raised,
      [\<lparr>run_id = ''42'', job_type = JobType_staging, status = JobStatus_new,
        status_prov = ''New, Run accepted'', downloadurl = ''http://x/f'', gridname = ''g1'',
        instance_name = ''inst-A'', job_objs = Map.empty\<rparr>],
      0,
      [Ev_get_new_runs, Ev_update_job_status ''42'' ''New, Run accepted'',
       Ev_chat_postMessage ''APSViz Supervisor - Instance name: inst-A, Run ID: 42 accepted.''])
   \<and> fst (run (Suc 0) ex_cfg (ex_env_rows [ex_row] False) []) = Raised"
  by (simp add: run_def tick_def get_incomplete_runs_def get_new_runs_def admit_run_def
      update_job_status_def send_slack_msg_def chat_postMessage_def ex_env_rows_def ex_env_def
      ex_row_def Let_def)

section \<open>Activity and the idle counter\<close>

text \<open>
  C7, as amended. After the loop over the runs, the flag \<^verbatim>\<open>no_activity\<close> is still
  set exactly when the stage handler has returned for none of the runs evaluated in
  the tick; so the tick counts as active as soon as the handler returns for one run,
  whether or not that run has changed, and the dispatches on complete runs and runs in
  error do not count. A tick that reaches its end sleeps for the interval, and keeps
  the counter, that \<open>poll\<close> gives for the flag: an active tick sleeps
  \<^verbatim>\<open>POLL_SHORT_SLEEP\<close> and resets the counter to 0; an idle tick increments the
  counter and sleeps \<^verbatim>\<open>POLL_SHORT_SLEEP\<close> while the counter stays below 10, and from
  then on sleeps \<^verbatim>\<open>POLL_LONG_SLEEP\<close> with the counter pinned at 9. So after \<open>k\<close> idle
  ticks in a row from the counter 0 the counter is the smaller of \<open>k\<close> and 9, and the
  next idle tick sleeps long exactly when \<open>k\<close> is at least 9: the tenth idle tick in a
  row and all that follow it sleep long, until a tick is active.
\<close>

theorem activity_and_backoff:
  "(for_runs cfg e 0 rl True tr = (out, rl', na', tr') \<longrightarrow>
      na' = (\<forall>(j, l, n, t) \<in> set (iterations cfg e 0 rl True tr). \<not> handled cfg e (l ! j) t))
   \<and> (get_incomplete_runs e rl0 tr0 = (Returned (), rl, tr) \<and>
       for_runs cfg e 0 rl True tr = (Returned (), rl', na', tr') \<longrightarrow>
      tick cfg e (rl0, c, tr0) =
        (Returned (), rl', snd (poll cfg na' c), tr' @ [Ev_sleep (fst (poll cfg na' c))]))
   \<and> poll cfg False c = (POLL_SHORT_SLEEP cfg, 0)
   \<and> (9 \<le> c \<longrightarrow> poll cfg True c = (POLL_LONG_SLEEP cfg, 9))
   \<and> (c < 9 \<longrightarrow> poll cfg True c = (POLL_SHORT_SLEEP cfg, c + 1))
   \<and> ((\<lambda>c. snd (poll cfg True c)) ^^ k) 0 = min (int k) 9
   \<and> fst (poll cfg True (((\<lambda>c. snd (poll cfg True c)) ^^ k) 0)) =
       (if 9 \<le> k then POLL_LONG_SLEEP cfg else POLL_SHORT_SLEEP cfg)"
proof (intro conjI impI)
  assume "for_runs cfg e 0 rl True tr = (out, rl', na', tr')"
  from for_runs_flag [OF this]
  show "na' = (\<forall>(j, l, n, t) \<in> set (iterations cfg e 0 rl True tr). \<not> handled cfg e (l ! j) t)"
    by simp
next
  assume "get_incomplete_runs e rl0 tr0 = (Returned (), rl, tr) \<and>
       for_runs cfg e 0 rl True tr = (Returned (), rl', na', tr')"
  then show "tick cfg e (rl0, c, tr0) =
        (Returned (), rl', snd (poll cfg na' c), tr' @ [Ev_sleep (fst (poll cfg na' c))])"
    by (simp add: tick_Returned)
next
  show "poll cfg False c = (POLL_SHORT_SLEEP cfg, 0)" by (rule poll_cases)
next
  assume "9 \<le> c"
  then show "poll cfg True c = (POLL_LONG_SLEEP cfg, 9)" by (rule poll_cases)
next
  assume "c < 9"
  then show "poll cfg True c = (POLL_SHORT_SLEEP cfg, c + 1)" by (rule poll_cases)
next
  show "((\<lambda>c. snd (poll cfg True c)) ^^ k) 0 = min (int k) 9" by (rule idle_counter)
next
  show "fst (poll cfg True (((\<lambda>c. snd (poll cfg True c)) ^^ k) 0)) =
       (if 9 \<le> k then POLL_LONG_SLEEP cfg else POLL_SHORT_SLEEP cfg)"
    by (rule idle_sleep)
qed

theorem activity_and_backoff_witness:
  "tick ex_cfg (ex_env (None, ''Succeeded''))
       ([ex_run JobType_complete JobStatus_final_staging_complete], 9, []) =
     (Returned (), [], 9,
      [Ev_get_new_runs, Ev_update_job_status ''42'' ''New, Run accepted, Run complete'',
       Ev_chat_postMessage
         ''APSViz Supervisor - Instance name: inst-A, Run ID: 42 *completed successfully*.'',
       Ev_sleep 60])
   \<and> poll ex_cfg True 3 = (10, 4)"
proof -
  let ?e = "ex_env (None, ''Succeeded'')"
  let ?r = "ex_run JobType_complete JobStatus_final_staging_complete"
  let ?tr = "[Ev_get_new_runs, Ev_update_job_status ''42'' ''New, Run accepted, Run complete'',
       Ev_chat_postMessage
         ''APSViz Supervisor - Instance name: inst-A, Run ID: 42 *completed successfully*.'']"
  have adm: "get_incomplete_runs ?e [?r] [] = (Returned (), [?r], [Ev_get_new_runs])"
    by (simp add: get_incomplete_runs_def get_new_runs_def ex_env_def)
  have its: "iterations ex_cfg ?e 0 [?r] True [Ev_get_new_runs] = [(0, [?r], True, [Ev_get_new_runs])]"
    by (simp add: iterations.simps [of _ _ 0] iterations.simps [of _ _ "Suc 0"]
      evaluate_run_def update_job_status_def send_slack_msg_def chat_postMessage_def
      str_find_def startswith_def ex_env_def ex_run_def)
  have nh: "\<not> handled ex_cfg ?e ([?r] ! 0) [Ev_get_new_runs]"
    by (simp add: handled_def ex_run_def)
  obtain out rl' na' tr' where f: "for_runs ex_cfg ?e 0 [?r] True [Ev_get_new_runs] = (out, rl', na', tr')"
    by (metis prod_cases4)
  have f': "for_runs ex_cfg ?e 0 [?r] True [Ev_get_new_runs] = (Returned (), [], True, ?tr)"
    by (simp add: for_runs.simps [of _ _ 0] for_runs.simps [of _ _ "Suc 0"]
      evaluate_run_def update_job_status_def send_slack_msg_def chat_postMessage_def
      str_find_def startswith_def ex_env_def ex_run_def)
  note thm1 = activity_and_backoff [of ex_cfg ?e "[?r]" "[Ev_get_new_runs]" "Returned ()" "[]" True ?tr
      "[?r]" "[]" 9 0]
  from thm1 adm f' have "tick ex_cfg ?e ([?r], 9, []) =
      (Returned (), [], snd (poll ex_cfg True 9), ?tr @ [Ev_sleep (fst (poll ex_cfg True 9))])"
    by blast
  moreover from thm1 have "poll ex_cfg True 9 = (POLL_LONG_SLEEP ex_cfg, 9)" by simp
  moreover from activity_and_backoff [of ex_cfg ?e "[?r]" "[Ev_get_new_runs]" "Returned ()" "[]" True ?tr
      "[?r]" "[]" 3 0]
  have "poll ex_cfg True 3 = (POLL_SHORT_SLEEP ex_cfg, 3 + 1)" by simp
  ultimately show ?thesis by (simp add: ex_cfg_def)
qed

text \<open>
  The claim as stated fails for a run whose job is still active: no run changes, yet
  the tick is active, the counter goes from 9 to 0 and the sleep is the short one.
\<close>

theorem activity_and_backoff_counterexample:
  "tick ex_cfg (ex_env (Some 1, ''Running''))
       ([ex_run JobType_staging JobStatus_staging_running], 9, []) =
     (Returned (), [ex_run JobType_staging JobStatus_staging_running], 0,
      [Ev_get_new_runs, Ev_find_job_info ''42'' JobType_staging, Ev_sleep 10])"
  by (simp add: tick_def get_incomplete_runs_def get_new_runs_def
      for_runs.simps [of _ _ 0] for_runs.simps [of _ _ "Suc 0"]
      evaluate_run_def handle_run_def stage_running_def find_job_info_def startswith_def
      poll_def ex_env_def ex_run_def ex_cfg_def)

section \<open>A failure of the final staging stage\<close>

text \<open>
  C8. For a run in the stage FinalStaging with the status final_staging_running that
  carries its job, when the pod condition found starts with "Failed" (the job delete
  and the notification returning): the run gets the job type Complete and the status
  final_staging_complete, not the job type Error, and the line sent holds the warning
  that intermediate files may not have been removed.
\<close>

theorem final_staging_failure_completes:
  assumes "job_type r = JobType_final_staging"
    and "status r = JobStatus_final_staging_running"
    and "job_id r = Some jid"
    and "k8s_find_job_info e (length tr) = Some (job_status, pod)"
    and "startswith pod ''Failed''"
    and "k8s_delete_job e (Suc (length tr)) = Some final"
    and "slack_chat_postMessage e (Suc (Suc (length tr)))"
  shows "evaluate_run cfg e r na tr =
    (Keep, r\<lparr>job_type := JobType_complete, status := JobStatus_final_staging_complete\<rparr>, False,
     tr @ [Ev_find_job_info (run_id r) JobType_final_staging,
           Ev_delete_job (run_id r) JobType_final_staging,
           Ev_chat_postMessage (slack_line r
             ''failed in final-staging. *Warning: Intermediate files may not have been removed.*'')])"
proof -
  have "handle_run cfg e r tr =
    (Returned False, r\<lparr>job_type := JobType_complete, status := JobStatus_final_staging_complete\<rparr>,
     tr @ [Ev_find_job_info (run_id r) JobType_final_staging,
           Ev_delete_job (run_id r) JobType_final_staging,
           Ev_chat_postMessage (slack_line r
             ''failed in final-staging. *Warning: Intermediate files may not have been removed.*'')])"
    using assms by (simp add: handle_run_final_staging_running stage_running_failed)
  with assms(1) show ?thesis by (simp add: evaluate_run_def)
qed

theorem final_staging_failure_completes_witness:
  "evaluate_run ex_cfg (ex_env (Some 1, ''Failed: ImagePullBackOff''))
       (ex_run JobType_final_staging JobStatus_final_staging_running) True [] =
     (Keep, ex_run JobType_complete JobStatus_final_staging_complete, False,
      [Ev_find_job_info ''42'' JobType_final_staging, Ev_delete_job ''42'' JobType_final_staging,
       Ev_chat_postMessage
         (''APSViz Supervisor - Instance name: inst-A, Run ID: 42 failed in final-staging.'' @
          '' *Warning: Intermediate files may not have been removed.*'')])"
proof -
  let ?r = "ex_run JobType_final_staging JobStatus_final_staging_running"
  let ?e = "ex_env (Some 1, ''Failed: ImagePullBackOff'')"
  have h1: "job_type ?r = JobType_final_staging" by (simp add: ex_run_def)
  have h2: "status ?r = JobStatus_final_staging_running" by (simp add: ex_run_def)
  have h4: "k8s_find_job_info ?e (length ([] :: event list)) = Some (Some 1, ''Failed: ImagePullBackOff'')"
    by (simp add: ex_env_def)
  have h5: "startswith ''Failed: ImagePullBackOff'' ''Failed''" by (simp add: startswith_def)
  have h6: "k8s_delete_job ?e (Suc (length ([] :: event list))) = Some ''OK''"
    by (simp add: ex_env_def)
  have h7: "slack_chat_postMessage ?e (Suc (Suc (length ([] :: event list))))"
    by (simp add: ex_env_def)
  show ?thesis
    using final_staging_failure_completes [OF h1 h2 ex_job_id h4 h5 h6 h7, of ex_cfg True]
    by (simp add: ex_run_def slack_line_def)
qed

section \<open>The mbtiles stages of zoom levels 10, 11 and 12\<close>


section \<open>Removal while the loop iterates\<close>

text \<open>
  C10. Take a tick over a run list whose run ids are pairwise different, and an
  iteration of its loop in which a run with the job type Complete is removed from the
  list. The run that stands right after the removed run at that moment is evaluated in
  no iteration of that tick: its id is not among the ids of the runs the loop
  evaluates.
\<close>

theorem removal_skips_next:
  assumes "distinct (map run_id run_list)"
    and "(i, l, n, t) \<in> set (iterations cfg e 0 run_list True tr)"
    and "job_type (l ! i) = JobType_complete"
    and "fst (evaluate_run cfg e (l ! i) n t) = Remove"
    and "Suc i < length l"
  shows "run_id (l ! Suc i) \<notin> set (evaluated_ids cfg e 0 run_list True tr)"
proof
  assume "run_id (l ! Suc i) \<in> set (evaluated_ids cfg e 0 run_list True tr)"
  then obtain j' l' n' t' where mem: "(j', l', n', t') \<in> set (iterations cfg e 0 run_list True tr)"
    and eq: "run_id (l' ! j') = run_id (l ! Suc i)"
    by (auto simp: evaluated_ids_def)
  from removal_skips_general [OF assms(1,2,4,5) mem] eq show False by simp
qed

theorem removal_skips_next_witness:
  "''43'' \<notin> set (evaluated_ids ex_cfg (ex_env (None, ''Succeeded'')) 0
       [ex_run JobType_complete JobStatus_final_staging_complete, ex_run_43] True [])"
proof -
  let ?e = "ex_env (None, ''Succeeded'')"
  let ?r = "ex_run JobType_complete JobStatus_final_staging_complete"
  have d: "distinct (map run_id [?r, ex_run_43])"
    by (simp add: ex_run_def ex_run_43_def)
  have it: "(0, [?r, ex_run_43], True, []) \<in> set (iterations ex_cfg ?e 0 [?r, ex_run_43] True [])"
    by (simp add: iterations.simps [of _ _ 0 "[?r, ex_run_43]"])
  have jt: "job_type ([?r, ex_run_43] ! 0) = JobType_complete"
    by (simp add: ex_run_def)
  have rm: "fst (evaluate_run ex_cfg ?e ([?r, ex_run_43] ! 0) True []) = Remove"
    by (simp add: evaluate_run_def update_job_status_def send_slack_msg_def chat_postMessage_def
      ex_env_def ex_run_def Let_def)
  have len: "Suc 0 < length [?r, ex_run_43]" by simp
  from removal_skips_next [OF d it jt rm len] show ?thesis
    by (simp add: ex_run_43_def)
qed

section \<open>Two scenarios of the spec\<close>

text \<open>
  The happy path: a run admitted in the first tick goes through Staging, ObsMod,
  GeoTiff, Mbtiles0_9, LoadGeoServer and FinalStaging and is removed in the thirteenth
  tick; the last provenance written holds every fragment, and two lines are sent, the
  acceptance and the success.
\<close>

lemma scenario_happy_path:
  "(case run 13 ex_cfg ex_env_happy [] of
      (out, run_list, counter, tr) \<Rightarrow> (out, run_list, last (written tr), sent tr)) =
   (Returned (), [],
    ''New, Run accepted, Staging running, Staging complete, Obs/Mod running, '' @
    ''Obs/Mod complete, Geo tiff running, Geo tiff complete, Compute mbtiles 0-9 running, '' @
    ''Compute mbtiles zoom 0-9 complete, Load geo server running, Load geo server complete, '' @
    ''Final staging running, Final staging complete, Run complete'',
    [''APSViz Supervisor - Instance name: inst-A, Run ID: 42 accepted.'',
     ''APSViz Supervisor - Instance name: inst-A, Run ID: 42 *completed successfully*.''])"
  by code_simp

text \<open>
  A pod failure in the geo tiff stage: the run goes to Error, is cleaned up by the
  final staging stage and is removed in the fifth tick, with the failure line and the
  unsuccessful completion sent.
\<close>

lemma scenario_pod_failure:
  "(case run 5 ex_cfg ex_env_pod_failure
           [ex_run JobType_run_geo_tiff JobStatus_run_geo_tiff_running] of
      (out, run_list, counter, tr) \<Rightarrow> (out, run_list, written tr, sent tr)) =
   (Returned (), [],
    [''New, Run accepted, Error detected'',
     ''New, Run accepted, Error detected, Final staging running'',
     ''New, Run accepted, Error detected, Final staging running, Final staging complete'',
     ''New, Run accepted, Error detected, Final staging running, Final staging complete, '' @
     ''Run complete''],
    [''APSViz Supervisor - Instance name: inst-A, Run ID: 42 failed in run-geo-tiff.'',
     ''APSViz Supervisor - Instance name: inst-A, Run ID: 42 *completed unsuccessfully*.'' @
     [CHR 0x0A] @
     ''Run provenance: New, Run accepted, Error detected, Final staging running, '' @
     ''Final staging complete, Run complete.''])"
  by code_simp

end
